theory Spec2Isabelle
  imports Complex_Main
begin

section \<open>Number model\<close>

text \<open>
  The source computes on JavaScript numbers. They are modelled as real numbers with exact
  arithmetic: \<open>Math.sqrt\<close> is \<^const>\<open>sqrt\<close>, \<open>Math.log\<close> is \<^const>\<open>ln\<close>,
  \<open>Math.exp\<close> is \<^const>\<open>exp\<close>, \<open>Math.pow(x, 3)\<close> is \<open>x ^ 3\<close> and
  \<open>Math.pow(x, 1/3)\<close> is \<open>x powr (1/3)\<close> (for \<open>x \<ge> 0\<close>). Rounding is not modelled.
  Where a result depends on a division by zero, the division is \<open>js_div\<close> into the
  type \<open>number\<close> below, which adds the non-finite values the source produces there;
  everywhere else the theorems keep to inputs on which every divisor is non-zero and every
  logarithm and square root has an argument in its domain.
\<close>

datatype number = Finite real | PosInfinity | NegInfinity | NotANumber

text \<open>\<open>x / y\<close> on two finite operands; the divisor \<open>0\<close> is the positive zero.\<close>

definition js_div :: "real \<Rightarrow> real \<Rightarrow> number" where
  "js_div x y =
     (if y \<noteq> 0 then Finite (x / y)
      else if 0 < x then PosInfinity
      else if x < 0 then NegInfinity
      else NotANumber)"

text \<open>\<open>Math.ceil\<close>: non-finite arguments are returned unchanged.\<close>

fun js_ceil :: "number \<Rightarrow> number" where
  "js_ceil (Finite x) = Finite (of_int \<lceil>x\<rceil>)"
| "js_ceil PosInfinity = PosInfinity"
| "js_ceil NegInfinity = NegInfinity"
| "js_ceil NotANumber = NotANumber"

text \<open>\<open>x * c\<close> for a finite constant \<open>c\<close>.\<close>

fun js_times :: "number \<Rightarrow> real \<Rightarrow> number" where
  "js_times (Finite x) c = Finite (x * c)"
| "js_times PosInfinity c =
     (if 0 < c then PosInfinity else if c < 0 then NegInfinity else NotANumber)"
| "js_times NegInfinity c =
     (if 0 < c then NegInfinity else if c < 0 then PosInfinity else NotANumber)"
| "js_times NotANumber c = NotANumber"

section \<open>Distribution approximations (confidenceIntervals/utils.ts)\<close>

definition erf :: "real \<Rightarrow> real" where
  "erf x =
     (let a1 = 0.254829592; a2 = - 0.284496736; a3 = 1.421413741;
          a4 = - 1.453152027; a5 = 1.061405429; p = 0.3275911;
          sign = (if x < 0 then - 1 else 1);
          absX = \<bar>x\<bar>;
          t = 1 / (1 + p * absX);
          y = 1 - (((((a5 * t + a4) * t) + a3) * t + a2) * t + a1) * t * exp (- absX * absX)
      in sign * y)"

definition getNormalCDF :: "real \<Rightarrow> real" where
  "getNormalCDF z = 0.5 * (1 + erf (z / sqrt 2))"

definition getZCritical :: "real \<Rightarrow> real" where
  "getZCritical confidence =
     (let alpha = 1 - confidence / 100;
          p = 1 - alpha / 2;
          t = sqrt (- 2 * ln (1 - p));
          num = 2.515517 + (0.802853 * t) + (0.010328 * t * t);
          den = 1 + (1.432788 * t) + (0.189269 * t * t) + (0.001308 * t * t * t)
      in t - (num / den))"

definition getChiSqPValue :: "real \<Rightarrow> real \<Rightarrow> real" where
  "getChiSqPValue chi2 df =
     (if chi2 \<le> 0 then 1
      else let z = (chi2 / df) powr (1 / 3) - (1 - 2 / (9 * df));
               denom = sqrt (2 / (9 * df));
               zStat = z / denom
           in 1 - getNormalCDF zStat)"

definition getChiSqCritical :: "real \<Rightarrow> real \<Rightarrow> real" where
  "getChiSqCritical p df =
     (if df \<le> 0 then 0
      else let z = getZCritical ((1 - p) * 100);
               inner = 1 - (2 / (9 * df)) + z * sqrt (2 / (9 * df))
           in df * inner ^ 3)"

text \<open>
  \<open>getFCritical\<close> and its helper \<open>lambda\<close>.
\<close>

definition lambda :: "real \<Rightarrow> real" where
  "lambda z = (z * z - 3) / 6"

definition getFCritical :: "real \<Rightarrow> real \<Rightarrow> real \<Rightarrow> real" where
  "getFCritical p d1 d2 =
     (let z = getZCritical (p * 100);
          h = 2 / (1 / d1 + 1 / d2);
          g = (d2 - d1) / (d1 * d2);
          w = (z * sqrt (h + lambda z) / h) - g * (z * z + 2)
      in exp (2 * w))"

text \<open>
  \<open>getTPValue\<close>. The degrees of freedom are an integer here (the callers pass sample
  sizes minus one or two); for \<open>df \<ge> 1\<close> the source's \<open>df % 2 === 1\<close> is
  \<open>df mod 2 = 1\<close>. The two \<open>for\<close> loops of the source have the same body and differ
  in the start index only; \<open>polyLoop i df cs term poly\<close> is the loop entered at
  index \<open>i\<close> and returns the final \<open>poly\<close>.
\<close>

record TPValue =
  twoSided :: real
  lower :: real
  upper :: real

function polyLoop :: "int \<Rightarrow> int \<Rightarrow> real \<Rightarrow> real \<Rightarrow> real \<Rightarrow> real" where
  "polyLoop i df cs term poly =
     (if i \<le> df - 2
      then (let term' = term * (real_of_int (i - 1) / real_of_int i * cs * cs)
            in polyLoop (i + 2) df cs term' (poly + term'))
      else poly)"
  by pat_completeness auto
termination
  by (relation "measure (\<lambda>(i, df, cs, term, poly). nat (df - i))") auto

declare polyLoop.simps [simp del]

definition getTPValue :: "real \<Rightarrow> int \<Rightarrow> TPValue" where
  "getTPValue t df =
     (let absT = \<bar>t\<bar>
      in if df > 100
         then (let pZ = getNormalCDF absT;
                   two = 2 * (1 - pZ);
                   low = (if t < 0 then pZ else 1 - pZ)
               in \<lparr>twoSided = two, lower = low, upper = 1 - low\<rparr>)
         else (let angle = arctan (absT / sqrt (real_of_int df));
                   p = (if df = 1 then 1 - (2 / pi) * angle
                        else (let sn = sin angle; cs = cos angle
                              in if df mod 2 = 1
                                 then (let poly = polyLoop 3 df cs sn sn
                                       in 1 - (2 / pi) * (angle + poly * cs))
                                 else (let poly = polyLoop 2 df cs sn sn
                                       in 1 - poly * cs)))
               in \<lparr>twoSided = max 0 (min 1 p),
                   lower = (if t < 0 then 1 - p / 2 else p / 2),
                   upper = (if t > 0 then 1 - p / 2 else p / 2)\<rparr>))"

section \<open>Poisson rate interval (ciRatePoisson.compute)\<close>

text \<open>The numbers behind the formatted result rows.\<close>

record PoissonRate =
  rate :: real
  exactLower :: real
  exactUpper :: real
  byarLower :: real
  byarUpper :: real

definition ciRatePoisson_compute :: "real \<Rightarrow> real \<Rightarrow> real \<Rightarrow> PoissonRate" where
  "ciRatePoisson_compute k T conf =
     (let alpha = 1 - conf / 100;
          rate = k / T;
          exactLower = (if k = 0 then 0 else getChiSqCritical (alpha / 2) (2 * k) / (2 * T));
          exactUpper = getChiSqCritical (1 - alpha / 2) (2 * (k + 1)) / (2 * T);
          zCrit = getZCritical conf;
          byarTerm = (zCrit / 3) * sqrt (1 / (k + 0.5));
          byarLower = ((k + 0.5) * (1 - 1 / (9 * (k + 0.5)) - byarTerm) ^ 3) / T;
          byarUpper = ((k + 0.5) * (1 - 1 / (9 * (k + 0.5)) + byarTerm) ^ 3) / T
      in \<lparr>rate = rate, exactLower = exactLower, exactUpper = exactUpper,
          byarLower = byarLower, byarUpper = byarUpper\<rparr>)"

section \<open>Proportion intervals (calculators/confidenceIntervals/ciProportion.ts)\<close>

record ProportionCI =
  pHat :: real
  wLow :: real
  wHigh :: real
  wilsonLow :: real
  wilsonHigh :: real
  wilsonCCLow :: real
  wilsonCCHigh :: real
  cpLow :: real
  cpHigh :: real

definition ciProportion_compute :: "real \<Rightarrow> real \<Rightarrow> real \<Rightarrow> ProportionCI" where
  "ciProportion_compute x n conf =
     (let p = x / n;
          alpha = 1 - conf / 100;
          zCrit = getZCritical conf;
          z2 = zCrit * zCrit;
          seWald = sqrt ((p * (1 - p)) / n);
          wLow = p - zCrit * seWald;
          wHigh = p + zCrit * seWald;
          wilsonDenom = 1 + z2 / n;
          wilsonCenter = p + z2 / (2 * n);
          wilsonSpread = zCrit * sqrt ((p * (1 - p) / n) + (z2 / (4 * n * n)));
          wilsonLow = (wilsonCenter - wilsonSpread) / wilsonDenom;
          wilsonHigh = (wilsonCenter + wilsonSpread) / wilsonDenom;
          wilsonCCLow = (2 * n * p + z2 - 1
                          - zCrit * sqrt (z2 - (2 + 1 / n) + 4 * p * (n * (1 - p) + 1)))
                        / (2 * (n + z2));
          wilsonCCHigh = (2 * n * p + z2 + 1
                          + zCrit * sqrt (z2 + (2 - 1 / n) + 4 * p * (n * (1 - p) - 1)))
                         / (2 * (n + z2));
          cpLow = (if x > 0
                   then (let v1L = 2 * (n - x + 1);
                             v2L = 2 * x;
                             fValL = getFCritical (1 - alpha / 2) v1L v2L
                         in x / (x + (n - x + 1) * fValL))
                   else 0);
          cpHigh = (if x < n
                    then (let v1U = 2 * (x + 1);
                              v2U = 2 * (n - x);
                              fValU = getFCritical (1 - alpha / 2) v1U v2U
                          in ((x + 1) * fValU) / ((n - x) + (x + 1) * fValU))
                    else 1)
      in \<lparr>pHat = p, wLow = wLow, wHigh = wHigh,
          wilsonLow = wilsonLow, wilsonHigh = wilsonHigh,
          wilsonCCLow = wilsonCCLow, wilsonCCHigh = wilsonCCHigh,
          cpLow = cpLow, cpHigh = cpHigh\<rparr>)"

section \<open>Effect measures on a 2x2 table (epidemiology utils)\<close>

text \<open>
  The fields \<open>a, b, c, d\<close> of the source's \<open>Table2x2\<close> are \<open>cell_a\<close> ... \<open>cell_d\<close>;
  the fields \<open>value, lower, upper\<close> of the returned objects are \<open>est_value\<close>,
  \<open>est_lower\<close>, \<open>est_upper\<close>.
\<close>

record Table2x2 =
  cell_a :: real
  cell_b :: real
  cell_c :: real
  cell_d :: real

record IntervalEstimate =
  est_value :: real
  est_lower :: real
  est_upper :: real

record RiskDifference = IntervalEstimate +
  nnt :: number

definition applyContinuityCorrection :: "Table2x2 \<Rightarrow> Table2x2" where
  "applyContinuityCorrection table =
     (let hasZero = (cell_a table = 0 \<or> cell_b table = 0 \<or> cell_c table = 0 \<or> cell_d table = 0)
      in if \<not> hasZero then table
         else \<lparr>cell_a = cell_a table + 0.5, cell_b = cell_b table + 0.5,
               cell_c = cell_c table + 0.5, cell_d = cell_d table + 0.5\<rparr>)"

definition computeRR :: "Table2x2 \<Rightarrow> real \<Rightarrow> IntervalEstimate" where
  "computeRR table conf =
     (let t = applyContinuityCorrection table;
          r1 = cell_a t / (cell_a t + cell_b t);
          r2 = cell_c t / (cell_c t + cell_d t);
          rr = r1 / r2;
          seLog = sqrt ((1 / cell_a t - 1 / (cell_a t + cell_b t))
                        + (1 / cell_c t - 1 / (cell_c t + cell_d t)));
          z = getZCritical conf
      in \<lparr>est_value = rr,
          est_lower = exp (ln rr - z * seLog),
          est_upper = exp (ln rr + z * seLog)\<rparr>)"

definition computeOR :: "Table2x2 \<Rightarrow> real \<Rightarrow> IntervalEstimate" where
  "computeOR table conf =
     (let t = applyContinuityCorrection table;
          or = (cell_a t * cell_d t) / (cell_b t * cell_c t);
          seLog = sqrt (1 / cell_a t + 1 / cell_b t + 1 / cell_c t + 1 / cell_d t);
          z = getZCritical conf
      in \<lparr>est_value = or,
          est_lower = exp (ln or - z * seLog),
          est_upper = exp (ln or + z * seLog)\<rparr>)"

definition computeRD :: "Table2x2 \<Rightarrow> real \<Rightarrow> RiskDifference" where
  "computeRD table conf =
     (let r1 = cell_a table / (cell_a table + cell_b table);
          r2 = cell_c table / (cell_c table + cell_d table);
          rd = r1 - r2;
          se = sqrt ((r1 * (1 - r1)) / (cell_a table + cell_b table)
                     + (r2 * (1 - r2)) / (cell_c table + cell_d table));
          z = getZCritical conf
      in \<lparr>est_value = rd,
          est_lower = rd - z * se,
          est_upper = rd + z * se,
          nnt = (if rd = 0 then PosInfinity else js_ceil (Finite \<bar>1 / rd\<bar>))\<rparr>)"

text \<open>
  The calculators \<open>riskRatioCalc\<close> and \<open>oddsRatioCalc\<close> (ratioCalculators.ts)
  call \<open>computeRR\<close> and \<open>computeOR\<close> with the default confidence 95 and show,
  next to the interval, the two risks (odds) computed from the table as entered. These
  divisions can be by zero, so they are \<open>js_div\<close>.
\<close>

record RiskRatioRows =
  rr_res :: IntervalEstimate
  riskExposed :: number
  riskUnexposed :: number

record OddsRatioRows =
  or_res :: IntervalEstimate
  oddsExposed :: number
  oddsUnexposed :: number

definition riskRatioCalc_compute :: "real \<Rightarrow> real \<Rightarrow> real \<Rightarrow> real \<Rightarrow> RiskRatioRows" where
  "riskRatioCalc_compute exposed_cases unexposed_cases exposed_control unexposed_control =
     (let table = \<lparr>cell_a = exposed_cases, cell_b = exposed_control,
                    cell_c = unexposed_cases, cell_d = unexposed_control\<rparr>;
          res = computeRR table 95
      in \<lparr>rr_res = res,
          riskExposed = js_div (cell_a table) (cell_a table + cell_b table),
          riskUnexposed = js_div (cell_c table) (cell_c table + cell_d table)\<rparr>)"

definition oddsRatioCalc_compute :: "real \<Rightarrow> real \<Rightarrow> real \<Rightarrow> real \<Rightarrow> OddsRatioRows" where
  "oddsRatioCalc_compute exposed_cases unexposed_cases exposed_control unexposed_control =
     (let table = \<lparr>cell_a = exposed_cases, cell_b = exposed_control,
                    cell_c = unexposed_cases, cell_d = unexposed_control\<rparr>;
          res = computeOR table 95
      in \<lparr>or_res = res,
          oddsExposed = js_div (cell_a table) (cell_b table),
          oddsUnexposed = js_div (cell_c table) (cell_d table)\<rparr>)"

text \<open>
  \<open>ciEpi.compute\<close> (calculator \<open>ci-epi-2x2\<close>, descriptive/bivariateSummary.ts) is a
  second implementation of the three measures. It adds 0.5 to every cell of every table,
  takes the point estimates from the cells as entered and the standard errors from the
  cells plus 0.5. The counts are non-negative (its schema), so \<open>a / (a + b)\<close> is
  \<open>NaN\<close> exactly when \<open>a + b = 0\<close>, which \<open>|| 0\<close> turns into 0, and the risks are
  finite; \<open>rrPoint\<close> is finite and non-negative or \<open>Infinity\<close>. For \<open>rrPoint = 0\<close> the
  source's \<open>Math.exp(Math.log(0) + ...)\<close> is \<open>exp(-Infinity) = 0\<close>, and for
  \<open>rrPoint = Infinity\<close> its \<open>Math.exp(Math.log(Infinity) - ...)\<close> is \<open>Infinity\<close>.
\<close>

text \<open>\<open>x || 0\<close> on a number: \<open>NaN\<close> and zero become 0, every other value is kept.\<close>

fun js_or_zero :: "number \<Rightarrow> number" where
  "js_or_zero (Finite x) = Finite x"
| "js_or_zero NotANumber = Finite 0"
| "js_or_zero PosInfinity = PosInfinity"
| "js_or_zero NegInfinity = NegInfinity"

record EpiCI =
  orPoint :: number
  orLower :: real
  orUpper :: real
  rrPoint :: number
  rrLower :: number
  rrUpper :: number
  rdPoint :: real
  rdLower :: real
  rdUpper :: real

definition ciEpi_compute :: "real \<Rightarrow> real \<Rightarrow> real \<Rightarrow> real \<Rightarrow> real \<Rightarrow> EpiCI" where
  "ciEpi_compute exposed_cases unexposed_cases exposed_control unexposed_control conf =
     (let a = exposed_cases; b = exposed_control; c = unexposed_cases; d = unexposed_control;
          zCrit = getZCritical conf;
          ac = a + 0.5; bc = b + 0.5; cc = c + 0.5; dc = d + 0.5;
          orPoint = js_or_zero (js_div (a * d) (b * c));
          seLogOr = sqrt (1 / ac + 1 / bc + 1 / cc + 1 / dc);
          orLower = exp (ln ((ac * dc) / (bc * cc)) - zCrit * seLogOr);
          orUpper = exp (ln ((ac * dc) / (bc * cc)) + zCrit * seLogOr);
          r1 = (if a + b = 0 then 0 else a / (a + b));
          r2 = (if c + d = 0 then 0 else c / (c + d));
          rrPoint = (if r2 = 0 then PosInfinity else Finite (r1 / r2));
          seLogRr = sqrt ((1 / ac - 1 / (ac + bc)) + (1 / cc - 1 / (cc + dc)));
          rrLower = (case rrPoint of
                       Finite v \<Rightarrow> (if v = 0 then Finite 0
                                    else Finite (exp (ln v - zCrit * seLogRr)))
                     | _ \<Rightarrow> PosInfinity);
          rrUpper = (case rrPoint of
                       Finite v \<Rightarrow> (if v = 0 then Finite 0
                                    else Finite (exp (ln v + zCrit * seLogRr)))
                     | _ \<Rightarrow> PosInfinity);
          rdPoint = r1 - r2;
          seRd = sqrt ((r1 * (1 - r1)) / (a + b + 0.5) + (r2 * (1 - r2)) / (c + d + 0.5));
          rdLower = rdPoint - zCrit * seRd;
          rdUpper = rdPoint + zCrit * seRd
      in \<lparr>orPoint = orPoint, orLower = orLower, orUpper = orUpper,
          rrPoint = rrPoint, rrLower = rrLower, rrUpper = rrUpper,
          rdPoint = rdPoint, rdLower = rdLower, rdUpper = rdUpper\<rparr>)"

section \<open>Sample-size solvers\<close>

text \<open>
  \<open>sampleSizeTwoProps.compute\<close>: the two group sizes. On its inputs with
  \<open>p1 \<noteq> p2\<close> and \<open>ratio > 0\<close> every division is by a non-zero number.
  The parameter \<open>power\<close> of the source is \<open>pwr\<close> in both solvers.
\<close>

record TwoPropsResult =
  n1 :: int
  n2 :: int

definition sampleSizeTwoProps_compute ::
    "real \<Rightarrow> real \<Rightarrow> real \<Rightarrow> real \<Rightarrow> real \<Rightarrow> TwoPropsResult" where
  "sampleSizeTwoProps_compute p1 p2 pwr alpha ratio =
     (let q1 = 1 - p1;
          q2 = 1 - p2;
          pAvg = (p1 + ratio * p2) / (1 + ratio);
          qAvg = 1 - pAvg;
          zAlpha = getZCritical ((1 - alpha) * 100);
          zPower = getZCritical ((pwr * 2 - 1) * 100);
          n1 = \<lceil>(zAlpha * sqrt ((1 + 1 / ratio) * pAvg * qAvg)
                  + zPower * sqrt (p1 * q1 + (p2 * q2) / ratio)) ^ 2
                / (p1 - p2) ^ 2\<rceil>;
          n2 = \<lceil>real_of_int n1 * ratio\<rceil>
      in \<lparr>n1 = n1, n2 = n2\<rparr>)"

text \<open>
  \<open>sampleSizeNonInferiority.compute\<close>. The schema admits inputs with
  \<open>pTest - pStandard - margin = 0\<close>, so the division in \<open>calculateN\<close> is \<open>js_div\<close>.
  The function has no \<open>throw\<close> and no early return: every call yields a result object.
\<close>

record SampleSizeResult =
  ss_n :: number
  ss_nTotal :: number

record NonInferiorityResult =
  perGroup :: number
  totalSize :: number
  zAlphaOneSided :: real
  powerSpectrum :: "(real \<times> SampleSizeResult) list"

definition calculateN :: "real \<Rightarrow> real \<Rightarrow> real \<Rightarrow> real \<Rightarrow> real \<Rightarrow> SampleSizeResult" where
  "calculateN pStandard pTest margin zAlpha targetPower =
     (let zPower = getZCritical ((targetPower * 2 - 1) * 100);
          numerator = (zAlpha + zPower) ^ 2
                      * (pStandard * (1 - pStandard) + pTest * (1 - pTest));
          denominator = (pTest - pStandard - margin) ^ 2;
          nPerArm = js_ceil (js_div numerator denominator)
      in \<lparr>ss_n = nPerArm, ss_nTotal = js_times nPerArm 2\<rparr>)"

definition sampleSizeNonInferiority_compute ::
    "real \<Rightarrow> real \<Rightarrow> real \<Rightarrow> real \<Rightarrow> real \<Rightarrow> NonInferiorityResult" where
  "sampleSizeNonInferiority_compute pStandard pTest margin pwr alpha =
     (let zAlpha = getZCritical ((1 - alpha * 2) * 100);
          mainN = calculateN pStandard pTest margin zAlpha pwr;
          n = ss_n mainN;
          spectrumPowers = [0.70, 0.75, 0.80, 0.85, 0.90, 0.95, 0.99];
          spectrum = map (\<lambda>p. (p * 100, calculateN pStandard pTest margin zAlpha p))
                         spectrumPowers
      in \<lparr>perGroup = n, totalSize = js_times n 2, zAlphaOneSided = zAlpha,
          powerSpectrum = spectrum\<rparr>)"


section \<open>Chi-square test on a 2x2 table (chiSquare.compute)\<close>

text \<open>
  The early return for a table with a zero row or column total is the outcome
  \<open>ZeroTotals\<close>; otherwise the statistic and its p-value (before formatting).
\<close>

datatype chisq_outcome = ZeroTotals | ChiSq (chi2: real) (pValue: real)

definition chiSquare_compute :: "real \<Rightarrow> real \<Rightarrow> real \<Rightarrow> real \<Rightarrow> bool \<Rightarrow> chisq_outcome" where
  "chiSquare_compute a b c d yates =
     (let n = a + b + c + d;
          row1 = a + b;
          row2 = c + d;
          col1 = a + c;
          col2 = b + d
      in if row1 = 0 \<or> row2 = 0 \<or> col1 = 0 \<or> col2 = 0 then ZeroTotals
         else let numerator = \<bar>a * d - b * c\<bar>;
                  correctedNum = (if yates then max 0 (numerator - n / 2) else numerator);
                  chi2 = (n * correctedNum ^ 2) / (row1 * row2 * col1 * col2);
                  pValue = getChiSqPValue chi2 1
              in ChiSq chi2 pValue)"

section \<open>Auxiliary definitions for the proofs\<close>

text \<open>
  The value \<open>getZCritical\<close> returns, as a function of its intermediate \<open>t\<close>.
\<close>

definition zOfT :: "real \<Rightarrow> real" where
  "zOfT t = t - (2.515517 + (0.802853 * t) + (0.010328 * t * t))
              / (1 + (1.432788 * t) + (0.189269 * t * t) + (0.001308 * t * t * t))"

text \<open>
  Numerator and denominator of the rational term of \<open>getZCritical\<close>, the Taylor
  polynomial of degree 8 of the exponential function (used to bound logarithms), and the
  polynomial factor of \<open>erf\<close> in Horner form.
\<close>

definition zNum :: "real \<Rightarrow> real" where
  "zNum t = 2.515517 + (0.802853 * t) + (0.010328 * t * t)"

definition zDen :: "real \<Rightarrow> real" where
  "zDen t = 1 + (1.432788 * t) + (0.189269 * t * t) + (0.001308 * t * t * t)"

definition expT :: "real \<Rightarrow> real" where
  "expT x = 1 + x + x^2 / 2 + x^3 / 6 + x^4 / 24 + x^5 / 120 + x^6 / 720 + x^7 / 5040 + x^8 / 40320"

definition erfPoly :: "real \<Rightarrow> real" where
  "erfPoly t = (((((1.061405429 * t + - 1.453152027) * t) + 1.421413741) * t + - 0.284496736) * t + 0.254829592) * t"

text \<open>
  For \<open>getTPValue\<close>: the coefficient \<open>coef i0 j\<close> is the product of the factors
  \<open>(i - 1) / i\<close> over the first \<open>j\<close> loop indices \<open>i = i0, i0 + 2, ...\<close>;
  \<open>polySum i0 N cs sn\<close> is the value of \<open>poly\<close> after \<open>N\<close> iterations of the
  loop started at \<open>i0\<close>; \<open>trigP angle df\<close> is the value the source assigns to
  \<open>p\<close> in the branch \<open>df \<le> 100\<close>.
\<close>

fun coef :: "int \<Rightarrow> nat \<Rightarrow> real" where
  "coef i0 0 = 1"
| "coef i0 (Suc j) = coef i0 j * (real_of_int (i0 + 2 * int j - 1) / real_of_int (i0 + 2 * int j))"

fun polySum :: "int \<Rightarrow> nat \<Rightarrow> real \<Rightarrow> real \<Rightarrow> real" where
  "polySum i0 0 cs sn = sn"
| "polySum i0 (Suc j) cs sn = polySum i0 j cs sn + sn * coef i0 (Suc j) * cs ^ (2 * Suc j)"

definition trigP :: "real \<Rightarrow> int \<Rightarrow> real" where
  "trigP angle df =
     (if df = 1 then 1 - (2 / pi) * angle
      else (let sn = sin angle; cs = cos angle
            in if df mod 2 = 1
               then (let poly = polyLoop 3 df cs sn sn
                     in 1 - (2 / pi) * (angle + poly * cs))
               else (let poly = polyLoop 2 df cs sn sn
                     in 1 - poly * cs)))"

section \<open>Bounds on exponentials and logarithms\<close>

lemma maclaurin9:
  "\<exists>t::real. \<bar>t\<bar> \<le> \<bar>x\<bar> \<and> exp x = expT x + (exp t / 362880) * x ^ 9"
proof -
  obtain t where t: "\<bar>t\<bar> \<le> \<bar>x\<bar>"
    and e: "exp x = (\<Sum>m<9. (x ^ m) / fact m) + (exp t / fact 9) * x ^ 9"
    using Maclaurin_exp_le [of x 9] by blast
  have s: "(\<Sum>m<9. (x ^ m) / fact m) = expT x"
    by (simp add: expT_def eval_nat_numeral sum.lessThan_Suc fact_reduce)
  have f: "fact 9 = (362880 :: real)" by (simp add: eval_nat_numeral)
  show ?thesis using t e s f by auto
qed

lemma exp_lower9: assumes "0 \<le> x" shows "expT x \<le> exp x"
proof -
  obtain t where "exp x = expT x + (exp t / 362880) * x ^ 9" using maclaurin9 by blast
  moreover have "0 \<le> (exp t / 362880) * x ^ 9" using assms by simp
  ultimately show ?thesis by linarith
qed

lemma exp_upper9: assumes "0 \<le> x" and "x \<le> 1 / 2" shows "exp x \<le> expT x + x ^ 9 / 181440"
proof -
  obtain t where t: "\<bar>t\<bar> \<le> \<bar>x\<bar>" and e: "exp x = expT x + (exp t / 362880) * x ^ 9"
    using maclaurin9 by blast
  have "t \<le> 1 / 2" using t assms by linarith
  then have "exp t \<le> exp (1 / 2)" by simp
  also have "exp (1 / 2 :: real) \<le> 1 + 2 * (1 / 2)" by (rule real_exp_bound_lemma) simp_all
  finally have "exp t \<le> 2" by simp
  then have "exp t * x ^ 9 \<le> 2 * x ^ 9" using assms by (intro mult_right_mono) simp_all
  then show ?thesis using e by simp
qed

lemma exp_upper_scaled:
  assumes "0 \<le> y" and "y \<le> 1 / 2" and "expT y + y ^ 9 / 181440 \<le> u" and "u ^ n \<le> U"
  shows "exp (of_nat n * y) \<le> U"
proof -
  have "exp y \<le> u" using exp_upper9 [OF assms(1,2)] assms(3) by linarith
  then have "exp y ^ n \<le> u ^ n" by (intro power_mono) simp_all
  then show ?thesis using assms(4) by (simp add: exp_of_nat_mult)
qed

lemma exp_lower_scaled:
  assumes "0 \<le> y" and "0 \<le> l" and "l \<le> expT y" and "L \<le> l ^ n"
  shows "L \<le> exp (of_nat n * y)"
proof -
  have "l \<le> exp y" using exp_lower9 [OF assms(1)] assms(3) by linarith
  then have "l ^ n \<le> exp y ^ n" using assms(2) by (intro power_mono) simp_all
  then show ?thesis using assms(4) by (simp add: exp_of_nat_mult)
qed

lemma ln_upper_from_exp:
  fixes h a :: real
  assumes "0 < h" and "exp a \<le> 1 / h" shows "ln h \<le> - a"
proof -
  have "a \<le> ln (1 / h)" using assms by (simp add: ln_ge_iff)
  then show ?thesis using assms by (simp add: ln_div)
qed

lemma ln_lower_from_exp:
  fixes h b :: real
  assumes "0 < h" and "1 / h \<le> exp b" shows "- b \<le> ln h"
proof -
  have "ln (1 / h) \<le> ln (exp b)" using assms by (subst ln_le_cancel_iff) simp_all
  then show ?thesis using assms by (simp add: ln_div)
qed

lemma sqrt_ln_interval:
  fixes h a b lo hi :: real
  assumes "- b \<le> ln h" and "ln h \<le> - a" and "lo\<^sup>2 \<le> 2 * a" and "2 * b \<le> hi\<^sup>2" and "0 \<le> hi"
  shows "lo \<le> sqrt (- 2 * ln h)" and "sqrt (- 2 * ln h) \<le> hi"
proof -
  have "lo\<^sup>2 \<le> - 2 * ln h" using assms by linarith
  then show "lo \<le> sqrt (- 2 * ln h)" by (rule real_le_rsqrt)
  have "- 2 * ln h \<le> hi\<^sup>2" using assms by linarith
  then show "sqrt (- 2 * ln h) \<le> hi" using assms(5) by (intro real_le_lsqrt)
qed

lemma t_ge_from_ln:
  fixes h h0 a t0 :: real
  assumes "0 < h" and "h \<le> h0" and "ln h0 \<le> - a" and "t0\<^sup>2 \<le> 2 * a"
  shows "t0 \<le> sqrt (- 2 * ln h)"
proof -
  have "ln h \<le> ln h0" using assms by (subst ln_le_cancel_iff) simp_all
  then have "t0\<^sup>2 \<le> - 2 * ln h" using assms by linarith
  then show ?thesis by (rule real_le_rsqrt)
qed

section \<open>The rational approximation of the normal quantile\<close>

lemma getZCritical_zOfT:
  "getZCritical conf = zOfT (sqrt (- 2 * ln ((1 - conf / 100) / 2)))"
  by (simp add: getZCritical_def zOfT_def Let_def)

lemma zOfT_frac: "zOfT t = t - zNum t / zDen t"
  by (simp add: zOfT_def zNum_def zDen_def)

lemma zNum_mono: assumes "0 \<le> s" and "s \<le> t" shows "zNum s \<le> zNum t"
proof -
  have "s * s \<le> t * t" using assms by (intro mult_mono) simp_all
  then show ?thesis using assms by (simp add: zNum_def)
qed

lemma zDen_mono: assumes "0 \<le> s" and "s \<le> t" shows "zDen s \<le> zDen t"
proof -
  have a: "s * s \<le> t * t" using assms by (intro mult_mono) simp_all
  have "s * s * s \<le> t * t * t" using assms a by (intro mult_mono) simp_all
  then show ?thesis using assms a by (simp add: zDen_def)
qed

lemma zNum_pos: "0 \<le> t \<Longrightarrow> 0 < zNum t"
  by (simp add: zNum_def add_pos_nonneg)

lemma zDen_pos: "0 \<le> t \<Longrightarrow> 0 < zDen t"
  by (simp add: zDen_def add_pos_nonneg)

lemma zOfT_interval:
  assumes "0 \<le> lo" and "lo \<le> t" and "t \<le> hi"
  shows "lo - zNum hi / zDen lo \<le> zOfT t" and "zOfT t \<le> hi - zNum lo / zDen hi"
proof -
  have t0: "0 \<le> t" and hi0: "0 \<le> hi" using assms by simp_all
  have "zNum t / zDen t \<le> zNum hi / zDen lo"
    using assms t0 by (intro frac_le zNum_mono zDen_mono zDen_pos less_imp_le [OF zNum_pos]) simp_all
  then show "lo - zNum hi / zDen lo \<le> zOfT t" using assms by (simp add: zOfT_frac)
  have "zNum lo / zDen hi \<le> zNum t / zDen t"
    using assms t0 by (intro frac_le zNum_mono zDen_mono zDen_pos less_imp_le [OF zNum_pos]) simp_all
  then show "zOfT t \<le> hi - zNum lo / zDen hi" using assms by (simp add: zOfT_frac)
qed

lemma zOfT_gt:
  assumes t: "t0 \<le> t" "0 \<le> t0"
    and k1: "0 \<le> 1 - c * 1.432788 - 0.802853"
    and k2: "0 \<le> 1.432788 - c * 0.189269 - 0.010328"
    and k3: "0 \<le> 0.189269 - c * 0.001308"
    and r0: "zNum t0 < (t0 - c) * zDen t0"
  shows "c < zOfT t"
proof -
  have t0: "0 \<le> t" using t by simp
  have p2: "t0 ^ 2 \<le> t ^ 2" using t by (intro power_mono) simp_all
  have p3: "t0 ^ 3 \<le> t ^ 3" using t by (intro power_mono) simp_all
  have p4: "t0 ^ 4 \<le> t ^ 4" using t by (intro power_mono) simp_all
  have m1: "(1 - c * 1.432788 - 0.802853) * t0 \<le> (1 - c * 1.432788 - 0.802853) * t"
    using k1 t(1) by (rule mult_left_mono [rotated])
  have m2: "(1.432788 - c * 0.189269 - 0.010328) * t0 ^ 2 \<le> (1.432788 - c * 0.189269 - 0.010328) * t ^ 2"
    using k2 p2 by (rule mult_left_mono [rotated])
  have m3: "(0.189269 - c * 0.001308) * t0 ^ 3 \<le> (0.189269 - c * 0.001308) * t ^ 3"
    using k3 p3 by (rule mult_left_mono [rotated])
  have m4: "0.001308 * t0 ^ 4 \<le> 0.001308 * t ^ 4" using p4 by simp
  have id: "(s - c) * zDen s - zNum s
              = 0.001308 * s ^ 4 + (0.189269 - c * 0.001308) * s ^ 3
                + (1.432788 - c * 0.189269 - 0.010328) * s ^ 2
                + (1 - c * 1.432788 - 0.802853) * s - c - 2.515517" for s
    by (simp add: zNum_def zDen_def power2_eq_square power3_eq_cube power4_eq_xxxx field_simps)
  have "(t0 - c) * zDen t0 - zNum t0 \<le> (t - c) * zDen t - zNum t"
    unfolding id using m1 m2 m3 m4 by linarith
  then have "zNum t < (t - c) * zDen t" using r0 by linarith
  then have "zNum t / zDen t < t - c"
    using zDen_pos [OF t0] by (simp add: pos_divide_less_eq)
  then show ?thesis by (simp add: zOfT_frac)
qed

lemma zOfT_pos: assumes "118 / 100 \<le> t" shows "0 < zOfT t"
proof -
  have t0: "0 \<le> t" using assms by simp
  have p2: "(118 / 100) ^ 2 \<le> t ^ 2" using assms by (intro power_mono) simp_all
  have p3: "(118 / 100) ^ 3 \<le> t ^ 3" using assms by (intro power_mono) simp_all
  have p4: "(118 / 100) ^ 4 \<le> t ^ 4" using assms by (intro power_mono) simp_all
  have den: "0 < 1 + (1.432788 * t) + (0.189269 * t * t) + (0.001308 * t * t * t)"
    using t0 by (simp add: add_pos_nonneg)
  have "2.515517 + (0.802853 * t) + (0.010328 * t ^ 2)
        < t * (1 + (1.432788 * t) + (0.189269 * t ^ 2) + (0.001308 * t ^ 3))"
    using assms p2 p3 p4 by (simp add: algebra_simps power2_eq_square power3_eq_cube power4_eq_xxxx)
  then have "(2.515517 + (0.802853 * t) + (0.010328 * t * t))
              / (1 + (1.432788 * t) + (0.189269 * t * t) + (0.001308 * t * t * t)) < t"
    using den by (simp add: pos_divide_less_eq power2_eq_square power3_eq_cube algebra_simps)
  then show ?thesis by (simp add: zOfT_def)
qed

lemma t_ge_118:
  assumes "0 < h" and "h \<le> 4 / 10"
  shows "118 / 100 \<le> sqrt (- 2 * ln h)"
proof -
  have "exp (7 / 10 :: real) \<le> 1 + 7 / 10 + (7 / 10)\<^sup>2"
    by (rule exp_bound) simp_all
  then have "exp (7 / 10 :: real) \<le> 5 / 2" by (simp add: power2_eq_square)
  then have "ln (exp (7 / 10 :: real)) \<le> ln (5 / 2)"
    by (subst ln_le_cancel_iff) simp_all
  then have a: "7 / 10 \<le> ln (5 / 2 :: real)" by simp
  have "ln h \<le> ln (4 / 10)" using assms by (subst ln_le_cancel_iff) simp_all
  also have "ln (4 / 10 :: real) = - ln (5 / 2)"
    by (simp add: ln_div)
  finally have "ln h \<le> - (7 / 10)" using a by linarith
  then have "(118 / 100)\<^sup>2 \<le> - 2 * ln h" by (simp add: power2_eq_square)
  then show ?thesis by (rule real_le_rsqrt)
qed

lemma getZCritical_pos:
  assumes "20 \<le> conf" and "conf < 100"
  shows "0 < getZCritical conf"
  unfolding getZCritical_zOfT
  by (rule zOfT_pos, rule t_ge_118) (use assms in simp_all)

section \<open>The quantile at the confidence levels of the examples\<close>

text \<open>Confidence 95: the tail probability is 0.025.\<close>

lemma ln_025: "- (368888 / 100000) \<le> ln (25 / 1000 :: real)" "ln (25 / 1000 :: real) \<le> - (36888 / 10000)"
proof -
  have "exp (of_nat 8 * (4611 / 10000 :: real)) \<le> 40"
    by (rule exp_upper_scaled [where u = "158582 / 100000"]) (simp_all add: expT_def power_divide)
  then show "ln (25 / 1000 :: real) \<le> - (36888 / 10000)"
    using ln_upper_from_exp [of "25 / 1000" "36888 / 10000"] by simp
  have "40 \<le> exp (of_nat 8 * (46111 / 100000 :: real))"
    by (rule exp_lower_scaled [where l = "15858332 / 10000000"]) (simp_all add: expT_def power_divide)
  then show "- (368888 / 100000) \<le> ln (25 / 1000 :: real)"
    using ln_lower_from_exp [of "25 / 1000" "368888 / 100000"] by simp
qed

lemma t_95: "271617 / 100000 \<le> sqrt (- 2 * ln (25 / 1000 :: real))"
            "sqrt (- 2 * ln (25 / 1000 :: real)) \<le> 2716204 / 1000000"
  using sqrt_ln_interval [OF ln_025, of "271617 / 100000" "2716204 / 1000000"]
  by (simp_all add: power_divide)

lemma z_95: "196033 / 100000 \<le> getZCritical 95" "getZCritical 95 \<le> 19605 / 10000"
proof -
  have e: "getZCritical 95 = zOfT (sqrt (- 2 * ln (25 / 1000 :: real)))"
    by (simp add: getZCritical_zOfT)
  note b = zOfT_interval [OF _ t_95]
  have "196033 / 100000 \<le> 271617 / 100000 - zNum (2716204 / 1000000) / zDen (271617 / 100000)"
    by (simp add: zNum_def zDen_def)
  then show "196033 / 100000 \<le> getZCritical 95" using b(1) e by simp
  have "2716204 / 1000000 - zNum (271617 / 100000) / zDen (2716204 / 1000000) \<le> 19605 / 10000"
    by (simp add: zNum_def zDen_def)
  then show "getZCritical 95 \<le> 19605 / 10000" using b(2) e by simp
qed

text \<open>Confidence 97.5: the tail probability is 0.0125.\<close>

lemma ln_0125: "- (45 / 10) \<le> ln (125 / 10000 :: real)" "ln (125 / 10000 :: real) \<le> - (4205 / 1000)"
proof -
  have "exp (of_nat 10 * (4205 / 10000 :: real)) \<le> 80"
    by (rule exp_upper_scaled [where u = "15228 / 10000"]) (simp_all add: expT_def power_divide)
  then show "ln (125 / 10000 :: real) \<le> - (4205 / 1000)"
    using ln_upper_from_exp [of "125 / 10000" "4205 / 1000"] by simp
  have "80 \<le> exp (of_nat 10 * (45 / 100 :: real))"
    by (rule exp_lower_scaled [where l = "1568 / 1000"]) (simp_all add: expT_def power_divide)
  then show "- (45 / 10) \<le> ln (125 / 10000 :: real)"
    using ln_lower_from_exp [of "125 / 10000" "45 / 10"] by simp
qed

lemma t_975: "29 / 10 \<le> sqrt (- 2 * ln (125 / 10000 :: real))"
             "sqrt (- 2 * ln (125 / 10000 :: real)) \<le> 3"
  using sqrt_ln_interval [OF ln_0125, of "29 / 10" 3]
  by (simp_all add: power_divide)

lemma z_975: "21 / 10 \<le> getZCritical (195 / 2)" "getZCritical (195 / 2) \<le> 23 / 10"
proof -
  have e: "getZCritical (195 / 2) = zOfT (sqrt (- 2 * ln (125 / 10000 :: real)))"
    by (simp add: getZCritical_zOfT)
  note b = zOfT_interval [OF _ t_975]
  have "21 / 10 \<le> 29 / 10 - zNum 3 / zDen (29 / 10)"
    by (simp add: zNum_def zDen_def)
  then show "21 / 10 \<le> getZCritical (195 / 2)" using b(1) e by simp
  have "3 - zNum (29 / 10) / zDen 3 \<le> 23 / 10"
    by (simp add: zNum_def zDen_def)
  then show "getZCritical (195 / 2) \<le> 23 / 10" using b(2) e by simp
qed

text \<open>Confidence 2.5: the tail probability is 0.4875.\<close>

lemma ln_4875: "- (732 / 1000) \<le> ln (4875 / 10000 :: real)" "ln (4875 / 10000 :: real) \<le> - (7081 / 10000)"
proof -
  have "exp (of_nat 2 * (35405 / 100000 :: real)) \<le> 80 / 39"
    by (rule exp_upper_scaled [where u = "14249 / 10000"]) (simp_all add: expT_def power_divide)
  then show "ln (4875 / 10000 :: real) \<le> - (7081 / 10000)"
    using ln_upper_from_exp [of "4875 / 10000" "7081 / 10000"] by simp
  have "80 / 39 \<le> exp (of_nat 2 * (366 / 1000 :: real))"
    by (rule exp_lower_scaled [where l = "14419 / 10000"]) (simp_all add: expT_def power_divide)
  then show "- (732 / 1000) \<le> ln (4875 / 10000 :: real)"
    using ln_lower_from_exp [of "4875 / 10000" "732 / 1000"] by simp
qed

lemma t_025: "119 / 100 \<le> sqrt (- 2 * ln (4875 / 10000 :: real))"
             "sqrt (- 2 * ln (4875 / 10000 :: real)) \<le> 121 / 100"
  using sqrt_ln_interval [OF ln_4875, of "119 / 100" "121 / 100"]
  by (simp_all add: power_divide)

lemma z_025: "0 \<le> getZCritical (5 / 2)" "getZCritical (5 / 2) \<le> 6 / 100"
proof -
  have e: "getZCritical (5 / 2) = zOfT (sqrt (- 2 * ln (4875 / 10000 :: real)))"
    by (simp add: getZCritical_zOfT)
  note b = zOfT_interval [OF _ t_025]
  have "0 \<le> 119 / 100 - zNum (121 / 100) / zDen (119 / 100)"
    by (simp add: zNum_def zDen_def)
  then show "0 \<le> getZCritical (5 / 2)" using b(1) e by simp
  have "121 / 100 - zNum (119 / 100) / zDen (121 / 100) \<le> 6 / 100"
    by (simp add: zNum_def zDen_def)
  then show "getZCritical (5 / 2) \<le> 6 / 100" using b(2) e by simp
qed

text \<open>Confidence 60: the tail probability is 0.2.\<close>

lemma ln_02: "- (16095 / 10000) \<le> ln (2 / 10 :: real)" "ln (2 / 10 :: real) \<le> - (16094 / 10000)"
proof -
  have "exp (of_nat 4 * (40235 / 100000 :: real)) \<le> 5"
    by (rule exp_upper_scaled [where u = "149534 / 100000"]) (simp_all add: expT_def power_divide)
  then show "ln (2 / 10 :: real) \<le> - (16094 / 10000)"
    using ln_upper_from_exp [of "2 / 10" "16094 / 10000"] by simp
  have "5 \<le> exp (of_nat 4 * (402375 / 1000000 :: real))"
    by (rule exp_lower_scaled [where l = "149536 / 100000"]) (simp_all add: expT_def power_divide)
  then show "- (16095 / 10000) \<le> ln (2 / 10 :: real)"
    using ln_lower_from_exp [of "2 / 10" "16095 / 10000"] by simp
qed

lemma t_60: "17941 / 10000 \<le> sqrt (- 2 * ln (2 / 10 :: real))"
            "sqrt (- 2 * ln (2 / 10 :: real)) \<le> 17942 / 10000"
  using sqrt_ln_interval [OF ln_02, of "17941 / 10000" "17942 / 10000"]
  by (simp_all add: power_divide)

lemma z_60: "8414 / 10000 \<le> getZCritical 60" "getZCritical 60 \<le> 8416 / 10000"
proof -
  have e: "getZCritical 60 = zOfT (sqrt (- 2 * ln (2 / 10 :: real)))"
    by (simp add: getZCritical_zOfT)
  note b = zOfT_interval [OF _ t_60]
  have "8414 / 10000 \<le> 17941 / 10000 - zNum (17942 / 10000) / zDen (17941 / 10000)"
    by (simp add: zNum_def zDen_def)
  then show "8414 / 10000 \<le> getZCritical 60" using b(1) e by simp
  have "17942 / 10000 - zNum (17941 / 10000) / zDen (17942 / 10000) \<le> 8416 / 10000"
    by (simp add: zNum_def zDen_def)
  then show "getZCritical 60 \<le> 8416 / 10000" using b(2) e by simp
qed

lemma ln_half: "ln (1 / 2 :: real) \<le> - (68445 / 100000)"
proof -
  have "exp (of_nat 2 * (342225 / 1000000 :: real)) \<le> 2"
    by (rule exp_upper_scaled [where u = "14081 / 10000"]) (simp_all add: expT_def power_divide)
  then show ?thesis
    using ln_upper_from_exp [of "1 / 2" "68445 / 100000"] by simp
qed

lemma getZCritical_gt_alpha:
  assumes "60 \<le> conf" and "conf < 100"
  shows "1 / 20 < getZCritical conf"
  unfolding getZCritical_zOfT
proof (rule zOfT_gt [where ?t0.0 = "13 / 10"])
  show "13 / 10 \<le> sqrt (- 2 * ln ((1 - conf / 100) / 2))"
  proof (rule t_ge_from_ln [of _ "2 / 10" "16094 / 10000"])
    show "ln (2 / 10 :: real) \<le> - (16094 / 10000)" by (rule ln_02(2))
  qed (use assms in \<open>simp_all add: power_divide\<close>)
qed (simp_all add: zNum_def zDen_def)

lemma getZCritical_gt_power:
  assumes "0 \<le> conf" and "conf < 100"
  shows "- (1 / 20) < getZCritical conf"
  unfolding getZCritical_zOfT
proof (rule zOfT_gt [where ?t0.0 = "117 / 100"])
  show "117 / 100 \<le> sqrt (- 2 * ln ((1 - conf / 100) / 2))"
  proof (rule t_ge_from_ln [of _ "1 / 2" "68445 / 100000"])
    show "ln (1 / 2 :: real) \<le> - (68445 / 100000)" by (rule ln_half)
  qed (use assms in \<open>simp_all add: power_divide\<close>)
qed (simp_all add: zNum_def zDen_def)

section \<open>Range of the error-function approximation\<close>

lemma erf_nonneg_arg:
  assumes "0 \<le> x"
  shows "erf x = 1 - erfPoly (1 / (1 + 0.3275911 * x)) * exp (- x * x)"
  using assms by (simp add: erf_def erfPoly_def Let_def)

lemma erfPoly_nonneg: assumes "0 \<le> t" shows "0 \<le> erfPoly t"
proof -
  have s1: "0 \<le> (t - 284496736 / 1000000000)\<^sup>2" by simp
  have q1: "0 \<le> 0.254829592 - 0.284496736 * t + 0.5 * t\<^sup>2"
    using s1 by (simp add: power2_eq_square algebra_simps)
  have s2: "0 \<le> (t - 6846 / 10000)\<^sup>2" by simp
  have q2: "0 \<le> 0.921413741 - 1.453152027 * t + 1.061405429 * t\<^sup>2"
    using s2 assms by (simp add: power2_eq_square algebra_simps)
  have "0 \<le> t\<^sup>2 * (0.921413741 - 1.453152027 * t + 1.061405429 * t\<^sup>2)"
    using q2 by (intro mult_nonneg_nonneg) simp_all
  then have "0 \<le> (0.254829592 - 0.284496736 * t + 0.5 * t\<^sup>2)
                 + t\<^sup>2 * (0.921413741 - 1.453152027 * t + 1.061405429 * t\<^sup>2)"
    using q1 by linarith
  also have "\<dots> = ((((1.061405429 * t + - 1.453152027) * t) + 1.421413741) * t + - 0.284496736) * t + 0.254829592"
    by (simp add: power2_eq_square algebra_simps)
  finally show ?thesis using assms by (simp add: erfPoly_def)
qed

lemma horner5_le:
  fixes t a1 a2 a3 a4 a5 :: real
  assumes t: "0 \<le> t" "t \<le> 1"
    and c: "0 \<le> a1 + a2 + a3 + a4 + a5" "0 \<le> a2 + a3 + a4 + a5" "0 \<le> a3 + a4 + a5 + (a4 + a5)"
           "a4 + a5 \<le> 0" "0 \<le> a5"
  shows "(((((a5 * t + a4) * t) + a3) * t + a2) * t + a1) * t \<le> a1 + a2 + a3 + a4 + a5"
proof -
  have "t\<^sup>2 * t \<le> t\<^sup>2 * 1" using t by (intro mult_left_mono) simp_all
  then have "(a4 + a5) * t\<^sup>2 \<le> (a4 + a5) * (t\<^sup>2 * t)"
    using c(4) by (intro mult_left_mono_neg) simp_all
  then have m: "0 \<le> (a3 + a4 + a5) * t\<^sup>2 + (a4 + a5) * (t\<^sup>2 * t)"
    using mult_nonneg_nonneg [OF c(3), of "t\<^sup>2"] by (simp add: algebra_simps)
  have "0 \<le> (a1 + a2 + a3 + a4 + a5) + (a2 + a3 + a4 + a5) * t
              + ((a3 + a4 + a5) * t\<^sup>2 + (a4 + a5) * (t\<^sup>2 * t)) + a5 * t ^ 4"
  proof -
    have p1: "0 \<le> (a2 + a3 + a4 + a5) * t" using c(2) t(1) by (rule mult_nonneg_nonneg)
    have p4: "0 \<le> a5 * t ^ 4" using c(5) by (intro mult_nonneg_nonneg) simp_all
    show ?thesis using c(1) p1 m p4 by linarith
  qed
  then have "0 \<le> (1 - t) * ((a1 + a2 + a3 + a4 + a5) + (a2 + a3 + a4 + a5) * t
              + ((a3 + a4 + a5) * t\<^sup>2 + (a4 + a5) * (t\<^sup>2 * t)) + a5 * t ^ 4)"
    using t by (intro mult_nonneg_nonneg) simp_all
  also have "\<dots> = (a1 + a2 + a3 + a4 + a5) - (((((a5 * t + a4) * t) + a3) * t + a2) * t + a1) * t"
    by (simp add: power2_eq_square power4_eq_xxxx algebra_simps)
  finally show ?thesis by simp
qed

lemma erfPoly_le_1: assumes "0 \<le> t" and "t \<le> 1" shows "erfPoly t \<le> 1"
proof -
  have "erfPoly t \<le> 0.254829592 + - 0.284496736 + 1.421413741 + - 1.453152027 + 1.061405429"
    unfolding erfPoly_def by (rule horner5_le) (use assms in simp_all)
  then show ?thesis by simp
qed

lemma erf_range: assumes "0 \<le> x" shows "0 \<le> erf x" and "erf x \<le> 1"
proof -
  let ?t = "1 / (1 + 0.3275911 * x)"
  have t0: "0 \<le> ?t" using assms by simp
  have t1: "?t \<le> 1" using assms by simp
  have e1: "exp (- x * x) \<le> 1" using assms by simp
  have "erfPoly ?t * exp (- x * x) \<le> 1 * 1"
    using erfPoly_le_1 [OF t0 t1] erfPoly_nonneg [OF t0] e1 by (intro mult_mono) simp_all
  then show "0 \<le> erf x" by (simp add: erf_nonneg_arg [OF assms])
  have "0 \<le> erfPoly ?t * exp (- x * x)"
    using erfPoly_nonneg [OF t0] by (intro mult_nonneg_nonneg) simp_all
  then show "erf x \<le> 1" by (simp add: erf_nonneg_arg [OF assms])
qed

lemma getNormalCDF_range:
  assumes "0 \<le> z" shows "1 / 2 \<le> getNormalCDF z" and "getNormalCDF z \<le> 1"
  using erf_range [of "z / sqrt 2"] assms by (simp_all add: getNormalCDF_def)

section \<open>Chi-square quantile followed by the p-value\<close>

lemma cube_root_cube: assumes "0 < (x::real)" shows "(x ^ 3) powr (1 / 3) = x"
proof -
  have "(x ^ 3) powr (1 / 3) = (x powr 3) powr (1 / 3)" using assms by (simp add: powr_numeral)
  also have "\<dots> = x powr (3 * (1 / 3))" by (rule powr_powr)
  also have "\<dots> = x" using assms by simp
  finally show ?thesis .
qed

lemma roundtrip_eq:
  assumes df: "1 \<le> df" and z: "0 \<le> getZCritical ((1 - p) * 100)"
  shows "getChiSqPValue (getChiSqCritical p df) df
           = 1 - getNormalCDF (getZCritical ((1 - p) * 100))"
proof -
  define z where "z = getZCritical ((1 - p) * 100)"
  define s where "s = sqrt (2 / (9 * df))"
  define inner where "inner = 1 - 2 / (9 * df) + z * s"
  have s: "0 < s" using df by (simp add: s_def)
  have "2 / (9 * df) \<le> 2 / (9 * 1)" using df by (intro divide_left_mono) simp_all
  then have "0 < 1 - 2 / (9 * df)" by simp
  moreover have "0 \<le> z * s" using z s by (simp add: z_def)
  ultimately have i: "0 < inner" by (simp add: inner_def)
  have c: "getChiSqCritical p df = df * inner ^ 3"
    using df by (simp add: getChiSqCritical_def Let_def inner_def z_def s_def)
  have pos: "0 < df * inner ^ 3" using df i by simp
  have q: "df * inner ^ 3 / df = inner ^ 3" using df by simp
  have "getChiSqPValue (df * inner ^ 3) df
          = 1 - getNormalCDF ((inner - (1 - 2 / (9 * df))) / s)"
    using pos by (simp add: getChiSqPValue_def Let_def q cube_root_cube [OF i] s_def)
  also have "(inner - (1 - 2 / (9 * df))) / s = z" using s by (simp add: inner_def)
  finally show ?thesis by (simp add: c z_def)
qed

lemma roundtrip_le_half:
  assumes df: "1 \<le> df" and p: "0 < p" "p \<le> 8 / 10"
  shows "getChiSqPValue (getChiSqCritical p df) df \<le> 1 / 2"
proof -
  have z: "0 < getZCritical ((1 - p) * 100)"
    by (rule getZCritical_pos) (use p in simp_all)
  then have "1 / 2 \<le> getNormalCDF (getZCritical ((1 - p) * 100))"
    by (intro getNormalCDF_range) simp
  then show ?thesis using roundtrip_eq [OF df less_imp_le [OF z]] by simp
qed

section \<open>The exact Poisson bounds for k = 5, T = 1000, confidence 95\<close>

lemma poisson_5_1000_lower: "107 / 10000 < exactLower (ciRatePoisson_compute 5 1000 95)"
proof -
  define z where "z = getZCritical (195 / 2)"
  have z: "21 / 10 \<le> z" unfolding z_def by (rule z_975)
  have r: "149 / 1000 \<le> sqrt (2 / 90)" by (rule real_le_rsqrt) (simp add: power_divide)
  have "(21 / 10) * (149 / 1000) \<le> z * sqrt (2 / 90)"
    using z r by (intro mult_mono) simp_all
  then have i: "129 / 100 \<le> 1 - 2 / 90 + z * sqrt (2 / 90)" by simp
  have "(129 / 100) ^ 3 \<le> (1 - 2 / 90 + z * sqrt (2 / 90)) ^ 3"
    using i by (intro power_mono) simp_all
  then have "107 / 10000 < 10 * (1 - 2 / 90 + z * sqrt (2 / 90)) ^ 3 / 2000"
    by (simp add: power_divide)
  then show ?thesis
    by (simp add: ciRatePoisson_compute_def getChiSqCritical_def Let_def z_def)
qed

lemma poisson_5_1000_upper: "exactUpper (ciRatePoisson_compute 5 1000 95) \<le> 6 / 1000"
proof -
  define z where "z = getZCritical (5 / 2)"
  have z: "0 \<le> z" "z \<le> 6 / 100" unfolding z_def by (rule z_025)+
  have r: "sqrt (2 / 108) \<le> 1361 / 10000" by (rule real_le_lsqrt) (simp_all add: power_divide)
  have "z * sqrt (2 / 108) \<le> (6 / 100) * (1361 / 10000)"
    using z r by (intro mult_mono) simp_all
  then have i: "1 - 2 / 108 + z * sqrt (2 / 108) \<le> 1" by simp
  have i0: "0 \<le> 1 - 2 / 108 + z * sqrt (2 / 108)" using z by (simp add: add_nonneg_nonneg)
  have "(1 - 2 / 108 + z * sqrt (2 / 108)) ^ 3 \<le> 1 ^ 3"
    using i i0 by (intro power_mono)
  then have "12 * (1 - 2 / 108 + z * sqrt (2 / 108)) ^ 3 / 2000 \<le> 6 / 1000"
    by simp
  then show ?thesis
    by (simp add: ciRatePoisson_compute_def getChiSqCritical_def Let_def z_def)
qed

section \<open>The two-proportion example\<close>

lemma twoProps_example_value:
  defines "V \<equiv> (getZCritical 95 * sqrt (48 / 100) + getZCritical 60 * sqrt (46 / 100))\<^sup>2 / (4 / 100)"
  shows "93 < V" and "V \<le> 94"
proof -
  define S where "S = getZCritical 95 * sqrt (48 / 100) + getZCritical 60 * sqrt (46 / 100)"
  have a: "69282 / 100000 \<le> sqrt (48 / 100 :: real)" by (rule real_le_rsqrt) (simp add: power_divide)
  have a': "sqrt (48 / 100 :: real) \<le> 6929 / 10000" by (rule real_le_lsqrt) (simp_all add: power_divide)
  have b: "67823 / 100000 \<le> sqrt (46 / 100 :: real)" by (rule real_le_rsqrt) (simp add: power_divide)
  have b': "sqrt (46 / 100 :: real) \<le> 6783 / 10000" by (rule real_le_lsqrt) (simp_all add: power_divide)
  have l1: "(196033 / 100000) * (69282 / 100000) \<le> getZCritical 95 * sqrt (48 / 100)"
    using z_95(1) a by (intro mult_mono) simp_all
  have l2: "(8414 / 10000) * (67823 / 100000) \<le> getZCritical 60 * sqrt (46 / 100)"
    using z_60(1) b by (intro mult_mono) simp_all
  have z95: "0 \<le> getZCritical 95" using z_95(1) by linarith
  have z60: "0 \<le> getZCritical 60" using z_60(1) by linarith
  have u1: "getZCritical 95 * sqrt (48 / 100) \<le> (19605 / 10000) * (6929 / 10000)"
    using z_95(2) a' z95 by (intro mult_mono) simp_all
  have u2: "getZCritical 60 * sqrt (46 / 100) \<le> (8416 / 10000) * (6783 / 10000)"
    using z_60(2) b' z60 by (intro mult_mono) simp_all
  have Sl: "19288 / 10000 \<le> S" unfolding S_def using l1 l2 by simp
  have Su: "S \<le> 1930 / 1000" unfolding S_def using u1 u2 by simp
  have "(19288 / 10000)\<^sup>2 \<le> S\<^sup>2" using Sl by (intro power_mono) simp_all
  then show "93 < V" unfolding V_def S_def [symmetric] by (simp add: power_divide)
  have "S\<^sup>2 \<le> (1930 / 1000)\<^sup>2" using Sl Su by (intro power_mono) simp_all
  then show "V \<le> 94" unfolding V_def S_def [symmetric] by (simp add: power_divide)
qed

lemma twoProps_example:
  "sampleSizeTwoProps_compute 0.3 0.5 0.8 0.05 1 = \<lparr>n1 = 94, n2 = 94\<rparr>"
proof -
  define V where
    "V = (getZCritical 95 * sqrt (48 / 100) + getZCritical 60 * sqrt (46 / 100))\<^sup>2 / (4 / 100)"
  have u: "sampleSizeTwoProps_compute 0.3 0.5 0.8 0.05 1
             = \<lparr>n1 = \<lceil>V\<rceil>, n2 = \<lceil>real_of_int \<lceil>V\<rceil> * 1\<rceil>\<rparr>"
    by (simp add: sampleSizeTwoProps_compute_def Let_def V_def power_divide)
  have "93 < V" and "V \<le> 94" unfolding V_def by (rule twoProps_example_value)+
  then have "\<lceil>V\<rceil> = 94" by (intro ceiling_unique) simp_all
  then show ?thesis by (subst u) simp
qed

section \<open>The Wilson interval\<close>

lemma wilson_core:
  fixes p m z :: real
  assumes p: "0 \<le> p" "p \<le> 1" and m: "0 < m" and z: "0 \<le> z"
  defines "A \<equiv> p * (1 - p) * m + z * z * m * m / 4"
    and "c \<equiv> p + z * z * m / 2"
    and "D \<equiv> 1 + z * z * m"
  shows "0 \<le> (c - z * sqrt A) / D" and "(c - z * sqrt A) / D \<le> p"
    and "p \<le> (c + z * sqrt A) / D" and "(c + z * sqrt A) / D \<le> 1"
proof -
  have A0: "0 \<le> A" unfolding A_def using p m by (intro add_nonneg_nonneg mult_nonneg_nonneg) simp_all
  have D0: "0 < D" unfolding D_def using m by (simp add: add_pos_nonneg)
  have zs0: "0 \<le> z * sqrt A" using z A0 by simp
  have sq: "(z * sqrt A)\<^sup>2 = z * z * A" using A0 by (simp add: power2_eq_square algebra_simps)
  have c0: "0 \<le> c" unfolding c_def using p m by (intro add_nonneg_nonneg mult_nonneg_nonneg) simp_all
  have pm: "0 \<le> p * (1 - p) * m" using p m by (intro mult_nonneg_nonneg) simp_all
  \<comment> \<open>lower bound is non-negative\<close>
  have "c\<^sup>2 - z * z * A = p * p * D"
    unfolding c_def A_def D_def by (simp add: power2_eq_square algebra_simps)
  moreover have "0 \<le> p * p * D" using D0 by simp
  ultimately have "(z * sqrt A)\<^sup>2 \<le> c\<^sup>2" using sq by linarith
  then have l1: "z * sqrt A \<le> c" using c0 by (rule power2_le_imp_le)
  then show "0 \<le> (c - z * sqrt A) / D" using D0 by simp
  \<comment> \<open>the interval contains p\<close>
  define e where "e = c - p * D"
  have "z * z * A - e\<^sup>2 = z * z * (p * (1 - p) * m) * D"
    unfolding e_def c_def A_def D_def by (simp add: power2_eq_square algebra_simps)
  moreover have "0 \<le> z * z * (p * (1 - p) * m) * D"
  proof -
    have "0 \<le> z * z" by simp
    then have "0 \<le> z * z * (p * (1 - p) * m)" using pm by (rule mult_nonneg_nonneg)
    then show ?thesis by (rule mult_nonneg_nonneg) (use D0 in simp)
  qed
  ultimately have e2: "e\<^sup>2 \<le> (z * sqrt A)\<^sup>2" using sq by linarith
  then have "e \<le> z * sqrt A" using zs0 by (rule power2_le_imp_le)
  then have "c - z * sqrt A \<le> p * D" unfolding e_def by linarith
  then show "(c - z * sqrt A) / D \<le> p" using D0 by (simp add: pos_divide_le_eq)
  have "(- e)\<^sup>2 \<le> (z * sqrt A)\<^sup>2" using e2 by simp
  then have "- e \<le> z * sqrt A" using zs0 by (rule power2_le_imp_le)
  then have "p * D \<le> c + z * sqrt A" unfolding e_def by linarith
  then show "p \<le> (c + z * sqrt A) / D" using D0 by (simp add: pos_le_divide_eq)
  \<comment> \<open>upper bound is at most 1\<close>
  define f where "f = D - c"
  have "0 \<le> m * (z * z) / 2" using m by simp
  then have f0: "0 \<le> f" unfolding f_def D_def c_def using p
    by (simp add: algebra_simps)
  have "f\<^sup>2 - z * z * A = (1 - p) * (1 - p) * D"
    unfolding f_def c_def A_def D_def by (simp add: power2_eq_square algebra_simps)
  moreover have "0 \<le> (1 - p) * (1 - p) * D" using D0 by simp
  ultimately have "(z * sqrt A)\<^sup>2 \<le> f\<^sup>2" using sq by linarith
  then have "z * sqrt A \<le> f" using f0 by (rule power2_le_imp_le)
  then have "c + z * sqrt A \<le> D" unfolding f_def by linarith
  then show "(c + z * sqrt A) / D \<le> 1" using D0 by (simp add: pos_divide_le_eq)
qed

lemma wilson_contains:
  assumes x: "0 \<le> x" "x \<le> n" and n: "1 \<le> n" and conf: "20 \<le> conf" "conf < 100"
  shows "0 \<le> wilsonLow (ciProportion_compute x n conf)
       \<and> wilsonLow (ciProportion_compute x n conf) \<le> pHat (ciProportion_compute x n conf)
       \<and> pHat (ciProportion_compute x n conf) \<le> wilsonHigh (ciProportion_compute x n conf)
       \<and> wilsonHigh (ciProportion_compute x n conf) \<le> 1"
proof -
  define z where "z = getZCritical conf"
  define p where "p = x / n"
  define m where "m = 1 / n"
  have z: "0 \<le> z" unfolding z_def using getZCritical_pos [OF conf] by simp
  have p: "0 \<le> p" "p \<le> 1" unfolding p_def using x n by simp_all
  have m: "0 < m" unfolding m_def using n by simp
  have A: "p * (1 - p) / n + z * z / (4 * n * n) = p * (1 - p) * m + z * z * m * m / 4"
    unfolding m_def by simp
  have c: "p + z * z / (2 * n) = p + z * z * m / 2" unfolding m_def by simp
  have D: "1 + z * z / n = 1 + z * z * m" unfolding m_def by simp
  have lo: "wilsonLow (ciProportion_compute x n conf)
              = (p + z * z * m / 2 - z * sqrt (p * (1 - p) * m + z * z * m * m / 4)) / (1 + z * z * m)"
    unfolding A [symmetric] c [symmetric] D [symmetric]
    by (simp add: ciProportion_compute_def Let_def z_def p_def)
  have hi: "wilsonHigh (ciProportion_compute x n conf)
              = (p + z * z * m / 2 + z * sqrt (p * (1 - p) * m + z * z * m * m / 4)) / (1 + z * z * m)"
    unfolding A [symmetric] c [symmetric] D [symmetric]
    by (simp add: ciProportion_compute_def Let_def z_def p_def)
  have ph: "pHat (ciProportion_compute x n conf) = p"
    by (simp add: ciProportion_compute_def Let_def p_def)
  show ?thesis unfolding lo hi ph using wilson_core [OF p m z] by simp
qed

section \<open>The F quantile behind the Clopper-Pearson upper bound at x = 1, n = 100\<close>

lemma fcrit_4_198: "0 < getFCritical (975 / 1000) 4 198" "getFCritical (975 / 1000) 4 198 < 1 / 2"
proof -
  define z where "z = getZCritical (195 / 2)"
  define h :: real where "h = 2 / (1 / 4 + 1 / 198)"
  define g :: real where "g = (198 - 4) / (4 * 198)"
  define w where "w = (z * sqrt (h + lambda z) / h) - g * (z * z + 2)"
  have f: "getFCritical (975 / 1000) 4 198 = exp (2 * w)"
    by (simp add: getFCritical_def Let_def w_def g_def h_def z_def)
  show "0 < getFCritical (975 / 1000) 4 198" by (subst f) simp
  have z: "21 / 10 \<le> z" "z \<le> 23 / 10" unfolding z_def by (rule z_975)+
  have zz: "z * z \<le> (23 / 10) * (23 / 10)" "(21 / 10) * (21 / 10) \<le> z * z"
    using z by (intro mult_mono; simp)+
  have "h + lambda z \<le> 3\<^sup>2" using zz by (simp add: h_def lambda_def field_simps)
  then have "sqrt (h + lambda z) \<le> 3" by (intro real_le_lsqrt) simp_all
  moreover have "0 \<le> h + lambda z" using zz by (simp add: h_def lambda_def field_simps)
  ultimately have "z * sqrt (h + lambda z) \<le> (23 / 10) * 3" using z by (intro mult_mono) simp_all
  then have a: "z * sqrt (h + lambda z) / h \<le> (23 / 10) * 3 / h"
    by (intro divide_right_mono) (simp_all add: h_def)
  have b: "g * ((21 / 10) * (21 / 10) + 2) \<le> g * (z * z + 2)"
    using zz by (intro mult_left_mono) (simp_all add: g_def)
  have "w \<le> (23 / 10) * 3 / h - g * ((21 / 10) * (21 / 10) + 2)"
    unfolding w_def using a b by linarith
  also have "\<dots> \<le> - (1 / 2)" by (simp add: h_def g_def)
  finally have "2 * w \<le> - 1" by simp
  then have "exp (2 * w) \<le> exp (- 1)" by simp
  moreover have "1 + 1 + 1\<^sup>2 / 2 \<le> exp (1 :: real)" by (rule exp_lower_Taylor_quadratic) simp
  then have "exp (- 1 :: real) < 1 / 2" by (simp add: exp_minus field_simps)
  ultimately show "getFCritical (975 / 1000) 4 198 < 1 / 2" using f by linarith
qed

section \<open>The trigonometric sums of the t p-value\<close>

lemma polyLoop_closed:
  assumes "df < i0 + 2 * int N + 2" and "j \<le> N" and "N = 0 \<or> i0 + 2 * int N \<le> df"
  shows "polyLoop (i0 + 2 * int j) df cs (sn * coef i0 j * cs ^ (2 * j)) (polySum i0 j cs sn)
           = polySum i0 N cs sn"
  using assms(2)
proof (induction "N - j" arbitrary: j)
  case 0
  then have "j = N" by simp
  then show ?case using assms(1) by (subst polyLoop.simps) simp
next
  case (Suc k)
  then have jN: "j < N" by simp
  then have c: "i0 + 2 * int j \<le> df - 2" using assms(3) by auto
  have k: "k = N - Suc j" using Suc.hyps(2) by simp
  have e: "i0 + 2 * int j + 2 = i0 + 2 * int (Suc j)" by simp
  have t: "sn * coef i0 j * cs ^ (2 * j) * (real_of_int (i0 + 2 * int j - 1) / real_of_int (i0 + 2 * int j) * cs * cs)
            = sn * coef i0 (Suc j) * cs ^ (2 * Suc j)"
    by (simp add: power2_eq_square)
  show ?case
    apply (subst polyLoop.simps)
    apply (simp only: c if_True Let_def t e)
    apply (simp only: polySum.simps(2) [symmetric])
    apply (rule Suc.hyps(1) [OF k])
    using jN apply simp
    done
qed

lemma polyLoop_start:
  assumes "df < i0 + 2 * int N + 2" and "N = 0 \<or> i0 + 2 * int N \<le> df"
  shows "polyLoop i0 df cs sn sn = polySum i0 N cs sn"
  using polyLoop_closed [OF assms(1) _ assms(2), of 0 cs sn] by simp

lemma deriv_sin_cos_power:
  "((\<lambda>x. sin x * cos x ^ Suc n) has_real_derivative
      (real (n + 2) * cos x ^ (n + 2) - real (n + 1) * cos x ^ n)) (at x)"
proof -
  have s: "sin x * sin x = 1 - cos x * cos x"
    using sin_squared_eq [of x] by (simp add: power2_eq_square)
  have p: "((\<lambda>x. cos x ^ Suc n) has_real_derivative (1 + real n) * (- sin x * cos x ^ n)) (at x)"
    by (rule DERIV_power_Suc) (rule DERIV_cos)
  have "((\<lambda>x. sin x * cos x ^ Suc n) has_real_derivative
          (sin x * ((1 + real n) * (- sin x * cos x ^ n)) + cos x * cos x ^ Suc n)) (at x)"
    by (rule DERIV_mult' [OF DERIV_sin p])
  also have "sin x * ((1 + real n) * (- sin x * cos x ^ n)) + cos x * cos x ^ Suc n
             = cos x ^ (n + 2) - (1 + real n) * cos x ^ n * (sin x * sin x)"
    by (simp add: algebra_simps)
  also have "\<dots> = real (n + 2) * cos x ^ (n + 2) - real (n + 1) * cos x ^ n"
    by (simp add: s algebra_simps)
  finally show ?thesis .
qed

lemma coef_even_step: "coef 2 (Suc N) * (2 * real N + 2) = coef 2 N * (2 * real N + 1)"
proof -
  have "2 + 2 * real N \<noteq> 0" by (simp add: add_pos_nonneg less_imp_neq [THEN not_sym])
  then show ?thesis by (simp add: field_simps)
qed

lemma coef_odd_step: "coef 3 (Suc N) * (2 * real N + 3) = coef 3 N * (2 * real N + 2)"
proof -
  have "3 + 2 * real N \<noteq> 0" by (simp add: add_pos_nonneg less_imp_neq [THEN not_sym])
  then show ?thesis by (simp add: field_simps)
qed

lemma deriv_even:
  "((\<lambda>x. polySum 2 N (cos x) (sin x)) has_real_derivative
      ((2 * real N + 1) * coef 2 N * cos x ^ (2 * N + 1))) (at x)"
proof (induction N)
  case 0
  show ?case by (auto intro!: derivative_eq_intros)
next
  case (Suc N)
  define c where "c = coef 2 N"
  define c' where "c' = coef 2 (Suc N)"
  define C1 where "C1 = cos x ^ (2 * N + 1)"
  define C3 where "C3 = cos x ^ (2 * N + 3)"
  have ce: "c' * (2 * real N + 2) = c * (2 * real N + 1)"
    unfolding c_def c'_def by (rule coef_even_step)
  have feq: "(\<lambda>x. polySum 2 (Suc N) (cos x) (sin x))
             = (\<lambda>x. polySum 2 N (cos x) (sin x) + c' * (sin x * cos x ^ Suc (2 * N + 1)))"
    by (rule ext) (simp add: c'_def)
  have "(2 * real N + 1) * c * C1 + c' * ((2 * real N + 3) * C3 - (2 * real N + 2) * C1)
          = (2 * real N + 3) * c' * C3 + C1 * (c * (2 * real N + 1) - c' * (2 * real N + 2))"
    by (simp add: algebra_simps)
  also have "\<dots> = (2 * real N + 3) * c' * C3" by (simp add: ce)
  finally have "(2 * real N + 3) * c' * C3
          = (2 * real N + 1) * c * C1 + c' * ((2 * real N + 3) * C3 - (2 * real N + 2) * C1)"
    by simp
  moreover have "2 * Suc N + 1 = 2 * N + 3" "2 * N + 1 + 2 = 2 * N + 3" by simp_all
  moreover have "2 * real (Suc N) + 1 = 2 * real N + 3" "real (2 * N + 1 + 2) = 2 * real N + 3"
    "real (2 * N + 1 + 1) = 2 * real N + 2" by simp_all
  ultimately have veq: "(2 * real (Suc N) + 1) * coef 2 (Suc N) * cos x ^ (2 * Suc N + 1)
          = (2 * real N + 1) * coef 2 N * cos x ^ (2 * N + 1)
            + c' * (real (2 * N + 1 + 2) * cos x ^ (2 * N + 1 + 2) - real (2 * N + 1 + 1) * cos x ^ (2 * N + 1))"
    unfolding c_def [symmetric] c'_def [symmetric] C1_def [symmetric]
    by (simp only: C3_def)
  show ?case
    unfolding feq veq
    by (intro DERIV_add Suc.IH DERIV_cmult deriv_sin_cos_power)
qed

lemma deriv_odd:
  "((\<lambda>x. x + polySum 3 N (cos x) (sin x) * cos x) has_real_derivative
      ((2 * real N + 2) * coef 3 N * cos x ^ (2 * N + 2))) (at x)"
proof (induction N)
  case 0
  have s: "sin x * sin x = 1 - cos x * cos x"
    using sin_squared_eq [of x] by (simp add: power2_eq_square)
  have "((\<lambda>x. x + sin x * cos x) has_real_derivative (1 + (sin x * (- sin x) + cos x * cos x))) (at x)"
    by (intro DERIV_add DERIV_ident DERIV_mult' DERIV_sin DERIV_cos)
  also have "1 + (sin x * (- sin x) + cos x * cos x) = 2 * (cos x * cos x)"
    by (simp add: s)
  finally show ?case by (simp add: power2_eq_square)
next
  case (Suc N)
  define c where "c = coef 3 N"
  define c' where "c' = coef 3 (Suc N)"
  define C2 where "C2 = cos x ^ (2 * N + 2)"
  define C4 where "C4 = cos x ^ (2 * N + 4)"
  have ce: "c' * (2 * real N + 3) = c * (2 * real N + 2)"
    unfolding c_def c'_def by (rule coef_odd_step)
  have feq: "(\<lambda>x. x + polySum 3 (Suc N) (cos x) (sin x) * cos x)
             = (\<lambda>x. (x + polySum 3 N (cos x) (sin x) * cos x) + c' * (sin x * cos x ^ Suc (2 * N + 2)))"
    by (rule ext) (simp add: c'_def algebra_simps)
  have "(2 * real N + 2) * c * C2 + c' * ((2 * real N + 4) * C4 - (2 * real N + 3) * C2)
          = (2 * real N + 4) * c' * C4 + C2 * (c * (2 * real N + 2) - c' * (2 * real N + 3))"
    by (simp add: algebra_simps)
  also have "\<dots> = (2 * real N + 4) * c' * C4" by (simp add: ce)
  finally have "(2 * real N + 4) * c' * C4
          = (2 * real N + 2) * c * C2 + c' * ((2 * real N + 4) * C4 - (2 * real N + 3) * C2)"
    by simp
  moreover have "2 * Suc N + 2 = 2 * N + 4" "2 * N + 2 + 2 = 2 * N + 4" by simp_all
  moreover have "2 * real (Suc N) + 2 = 2 * real N + 4" "real (2 * N + 2 + 2) = 2 * real N + 4"
    "real (2 * N + 2 + 1) = 2 * real N + 3" by simp_all
  ultimately have veq: "(2 * real (Suc N) + 2) * coef 3 (Suc N) * cos x ^ (2 * Suc N + 2)
          = (2 * real N + 2) * coef 3 N * cos x ^ (2 * N + 2)
            + c' * (real (2 * N + 2 + 2) * cos x ^ (2 * N + 2 + 2) - real (2 * N + 2 + 1) * cos x ^ (2 * N + 2))"
    unfolding c_def [symmetric] c'_def [symmetric] C2_def [symmetric]
    by (simp only: C4_def)
  show ?case
    unfolding feq veq
    by (intro DERIV_add Suc.IH DERIV_cmult deriv_sin_cos_power)
qed

lemma coef_nonneg: assumes "1 \<le> i0" shows "0 \<le> coef i0 j"
proof (induction j)
  case 0
  show ?case by simp
next
  case (Suc j)
  have "0 \<le> real_of_int (i0 + 2 * int j - 1) / real_of_int (i0 + 2 * int j)"
    using assms by (intro divide_nonneg_nonneg) simp_all
  then show ?case unfolding coef.simps using Suc by (intro mult_nonneg_nonneg)
qed

lemma polySum_nonneg:
  assumes "1 \<le> i0" and "0 \<le> cs" and "0 \<le> sn"
  shows "0 \<le> polySum i0 N cs sn"
proof (induction N)
  case 0
  show ?case using assms by simp
next
  case (Suc N)
  have "0 \<le> sn * coef i0 (Suc N) * cs ^ (2 * Suc N)"
    using assms coef_nonneg [OF assms(1), of "Suc N"] by (intro mult_nonneg_nonneg) simp_all
  then show ?case using Suc by simp
qed

lemma polySum_cos_zero: "polySum i0 N 0 sn = sn"
  by (induction N) simp_all

lemma polySum_sin_zero: "polySum i0 N cs 0 = 0"
  by (induction N) simp_all

lemma even_sum_le_1:
  assumes "0 \<le> x" and "x \<le> pi / 2"
  shows "polySum 2 N (cos x) (sin x) \<le> 1"
proof -
  have "polySum 2 N (cos x) (sin x) \<le> polySum 2 N (cos (pi / 2)) (sin (pi / 2))"
  proof (rule DERIV_nonneg_imp_nondecreasing [OF assms(2)])
    fix y assume y: "x \<le> y" "y \<le> pi / 2"
    have c: "0 \<le> cos y" using y assms by (intro cos_ge_zero) linarith+
    have "0 \<le> (2 * real N + 1) * coef 2 N * cos y ^ (2 * N + 1)"
      using c coef_nonneg [of 2 N] by (intro mult_nonneg_nonneg) simp_all
    then show "\<exists>d. ((\<lambda>x. polySum 2 N (cos x) (sin x)) has_real_derivative d) (at y) \<and> 0 \<le> d"
      using deriv_even [of N y] by blast
  qed
  then show ?thesis by (simp add: polySum_cos_zero)
qed

lemma odd_sum_le_half_pi:
  assumes "0 \<le> x" and "x \<le> pi / 2"
  shows "x + polySum 3 N (cos x) (sin x) * cos x \<le> pi / 2"
proof -
  have "x + polySum 3 N (cos x) (sin x) * cos x
          \<le> pi / 2 + polySum 3 N (cos (pi / 2)) (sin (pi / 2)) * cos (pi / 2)"
  proof (rule DERIV_nonneg_imp_nondecreasing [OF assms(2)])
    fix y assume y: "x \<le> y" "y \<le> pi / 2"
    have "0 \<le> cos y ^ (2 * N + 2)" by (rule zero_le_even_power) simp
    then have "0 \<le> (2 * real N + 2) * coef 3 N * cos y ^ (2 * N + 2)"
      using coef_nonneg [of 3 N] by (intro mult_nonneg_nonneg) simp_all
    then show "\<exists>d. ((\<lambda>x. x + polySum 3 N (cos x) (sin x) * cos x) has_real_derivative d) (at y) \<and> 0 \<le> d"
      using deriv_odd [of N y] by blast
  qed
  then show ?thesis by simp
qed

lemma getTPValue_trig:
  assumes "df \<le> 100"
  shows "getTPValue t df =
           (let p = trigP (arctan (\<bar>t\<bar> / sqrt (real_of_int df))) df
            in \<lparr>twoSided = max 0 (min 1 p),
                lower = (if t < 0 then 1 - p / 2 else p / 2),
                upper = (if t > 0 then 1 - p / 2 else p / 2)\<rparr>)"
  using assms by (simp add: getTPValue_def trigP_def Let_def)

lemma trigP_odd:
  assumes "3 \<le> df" and "df mod 2 = 1"
  shows "trigP x df = 1 - (2 / pi) * (x + polySum 3 (nat ((df - 3) div 2)) (cos x) (sin x) * cos x)"
proof -
  define N where "N = nat ((df - 3) div 2)"
  have "0 \<le> (df - 3) div 2" using assms by simp
  moreover have "2 * ((df - 3) div 2) = df - 3" using assms by presburger
  ultimately have "2 * int N = df - 3" unfolding N_def by simp
  then have "polyLoop 3 df (cos x) (sin x) (sin x) = polySum 3 N (cos x) (sin x)"
    by (intro polyLoop_start) simp_all
  then show ?thesis using assms by (simp add: trigP_def Let_def N_def)
qed

lemma trigP_even:
  assumes "2 \<le> df" and "df mod 2 \<noteq> 1"
  shows "trigP x df = 1 - polySum 2 (nat ((df - 2) div 2)) (cos x) (sin x) * cos x"
proof -
  define N where "N = nat ((df - 2) div 2)"
  have "0 \<le> (df - 2) div 2" using assms by simp
  moreover have "2 * ((df - 2) div 2) = df - 2" using assms by presburger
  ultimately have "2 * int N = df - 2" unfolding N_def by simp
  then have "polyLoop 2 df (cos x) (sin x) (sin x) = polySum 2 N (cos x) (sin x)"
    by (intro polyLoop_start) simp_all
  then show ?thesis using assms by (simp add: trigP_def Let_def N_def)
qed

lemma trigP_range:
  assumes df: "1 \<le> df" and x: "0 \<le> x" "x \<le> pi / 2"
  shows "0 \<le> trigP x df" and "trigP x df \<le> 1"
proof -
  have c0: "0 \<le> cos x" using x by (intro cos_ge_zero) linarith+
  have s0: "0 \<le> sin x" using x by (intro sin_ge_zero) linarith+
  have c1: "cos x \<le> 1" by simp
  consider "df = 1" | "3 \<le> df" "df mod 2 = 1" | "2 \<le> df" "df mod 2 \<noteq> 1"
    using df by atomize_elim presburger
  then have "0 \<le> trigP x df \<and> trigP x df \<le> 1"
  proof cases
    case 1
    have "(2 / pi) * x \<le> (2 / pi) * (pi / 2)" using x by (intro mult_left_mono) simp_all
    then have "(2 / pi) * x \<le> 1" by simp
    moreover have "0 \<le> (2 / pi) * x" using x by simp
    ultimately show ?thesis using 1 by (simp add: trigP_def)
  next
    case 2
    define S where "S = x + polySum 3 (nat ((df - 3) div 2)) (cos x) (sin x) * cos x"
    have u: "S \<le> pi / 2" unfolding S_def by (rule odd_sum_le_half_pi [OF x])
    have "0 \<le> polySum 3 (nat ((df - 3) div 2)) (cos x) (sin x) * cos x"
      using c0 s0 by (intro mult_nonneg_nonneg polySum_nonneg) simp_all
    then have l: "0 \<le> S" using x unfolding S_def by simp
    have "(2 / pi) * S \<le> (2 / pi) * (pi / 2)" using u by (intro mult_left_mono) simp_all
    then have "(2 / pi) * S \<le> 1" by simp
    moreover have "0 \<le> (2 / pi) * S" using l by simp
    ultimately show ?thesis unfolding trigP_odd [OF 2] S_def [symmetric] by simp
  next
    case 3
    define E where "E = polySum 2 (nat ((df - 2) div 2)) (cos x) (sin x)"
    have u: "E \<le> 1" unfolding E_def by (rule even_sum_le_1 [OF x])
    have l: "0 \<le> E" unfolding E_def using c0 s0 by (intro polySum_nonneg) simp_all
    have "E * cos x \<le> 1 * 1" using u l c0 c1 by (intro mult_mono) simp_all
    moreover have "0 \<le> E * cos x" using l c0 by simp
    ultimately show ?thesis unfolding trigP_even [OF 3] E_def [symmetric] by simp
  qed
  then show "0 \<le> trigP x df" and "trigP x df \<le> 1" by simp_all
qed

lemma trigP_zero: assumes "1 \<le> df" shows "trigP 0 df = 1"
proof -
  consider "df = 1" | "3 \<le> df" "df mod 2 = 1" | "2 \<le> df" "df mod 2 \<noteq> 1"
    using assms by atomize_elim presburger
  then show ?thesis
  proof cases
    case 1
    then show ?thesis by (simp add: trigP_def)
  next
    case 2
    show ?thesis unfolding trigP_odd [OF 2] by (simp add: polySum_sin_zero)
  next
    case 3
    show ?thesis unfolding trigP_even [OF 3] by (simp add: polySum_sin_zero)
  qed
qed

section \<open>The continuity correction in the shared utilities\<close>

text \<open>
  For a table of non-negative counts with positive row totals and at least one zero cell,
  \<open>computeRR\<close> and \<open>computeOR\<close> compute everything, ratio point estimate and
  standard error alike, from the table with 0.5 added to all four cells; the risks and
  odds shown next to the ratios and \<open>computeRD\<close> use the table as entered.
\<close>

lemma shared_utils_corrected_table:
  assumes nonneg: "0 \<le> a" "0 \<le> b" "0 \<le> c" "0 \<le> d"
    and rows: "0 < a + b" "0 < c + d"
    and zero: "a = 0 \<or> b = 0 \<or> c = 0 \<or> d = 0"
    and conf: "0 < conf" "conf < 100"
  shows "computeRR \<lparr>cell_a = a + 1 / 2, cell_b = b + 1 / 2, cell_c = c + 1 / 2, cell_d = d + 1 / 2\<rparr> conf
           = computeRR \<lparr>cell_a = a, cell_b = b, cell_c = c, cell_d = d\<rparr> conf
       \<and> computeOR \<lparr>cell_a = a + 1 / 2, cell_b = b + 1 / 2, cell_c = c + 1 / 2, cell_d = d + 1 / 2\<rparr> conf
           = computeOR \<lparr>cell_a = a, cell_b = b, cell_c = c, cell_d = d\<rparr> conf
       \<and> est_value (computeRR \<lparr>cell_a = a, cell_b = b, cell_c = c, cell_d = d\<rparr> conf)
           = ((a + 1 / 2) / ((a + 1 / 2) + (b + 1 / 2))) / ((c + 1 / 2) / ((c + 1 / 2) + (d + 1 / 2)))
       \<and> est_value (computeOR \<lparr>cell_a = a, cell_b = b, cell_c = c, cell_d = d\<rparr> conf)
           = ((a + 1 / 2) * (d + 1 / 2)) / ((b + 1 / 2) * (c + 1 / 2))
       \<and> riskExposed (riskRatioCalc_compute a c b d) = Finite (a / (a + b))
       \<and> riskUnexposed (riskRatioCalc_compute a c b d) = Finite (c / (c + d))
       \<and> oddsExposed (oddsRatioCalc_compute a c b d) = js_div a b
       \<and> oddsUnexposed (oddsRatioCalc_compute a c b d) = js_div c d
       \<and> est_value (computeRD \<lparr>cell_a = a, cell_b = b, cell_c = c, cell_d = d\<rparr> conf)
           = a / (a + b) - c / (c + d)
       \<and> est_upper (computeRD \<lparr>cell_a = a, cell_b = b, cell_c = c, cell_d = d\<rparr> conf)
           = (a / (a + b) - c / (c + d))
             + getZCritical conf
               * sqrt ((a / (a + b)) * (1 - a / (a + b)) / (a + b)
                       + (c / (c + d)) * (1 - c / (c + d)) / (c + d))"
proof -
  have idem: "applyContinuityCorrection
               \<lparr>cell_a = a + 1 / 2, cell_b = b + 1 / 2, cell_c = c + 1 / 2, cell_d = d + 1 / 2\<rparr>
             = \<lparr>cell_a = a + 1 / 2, cell_b = b + 1 / 2, cell_c = c + 1 / 2, cell_d = d + 1 / 2\<rparr>"
    using nonneg by (simp add: applyContinuityCorrection_def add_nonneg_eq_0_iff)
  have corr: "applyContinuityCorrection \<lparr>cell_a = a, cell_b = b, cell_c = c, cell_d = d\<rparr>
             = \<lparr>cell_a = a + 1 / 2, cell_b = b + 1 / 2, cell_c = c + 1 / 2, cell_d = d + 1 / 2\<rparr>"
    using zero by (simp add: applyContinuityCorrection_def)
  show ?thesis
    using rows
    by (simp add: computeRR_def computeOR_def computeRD_def riskRatioCalc_compute_def
        oddsRatioCalc_compute_def js_div_def idem corr Let_def)
qed

section \<open>The claims\<close>

text \<open>
  C1 at p = 0.8, df = 1: the quantile is taken from \<open>getZCritical ((1 - p) * 100)\<close>,
  whose tail probability is p/2, so the p-value of the returned quantile is at most 1/2
  and differs from p = 0.8 by more than 0.01.
\<close>

theorem C1_roundtrip_fails:
  "\<not> \<bar>getChiSqPValue (getChiSqCritical 0.8 1) 1 - 0.8\<bar> \<le> 0.01"
  using roundtrip_le_half [of 1 "0.8"] by simp

text \<open>
  C2 at k = 5, T = 1000, confidence 95: the observed rate is 0.005, but the exact lower
  bound exceeds 0.0107 and the exact upper bound is at most 0.006, so neither is within
  0.001 of 0.00162 and 0.01167.
\<close>

theorem C2_exact_bounds_off:
  "rate (ciRatePoisson_compute 5 1000 95) = 0.005
   \<and> \<not> \<bar>exactLower (ciRatePoisson_compute 5 1000 95) - 0.00162\<bar> \<le> 0.001
   \<and> \<not> \<bar>exactUpper (ciRatePoisson_compute 5 1000 95) - 0.01167\<bar> \<le> 0.001"
proof -
  have "rate (ciRatePoisson_compute 5 1000 95) = 0.005"
    by (simp add: ciRatePoisson_compute_def Let_def)
  then show ?thesis using poisson_5_1000_lower poisson_5_1000_upper by simp
qed

text \<open>
  C3 at the exact Poisson interval for k = 5, T = 1000, confidence 95: all three numbers
  are finite, yet the lower bound lies above the observed rate, and above the upper
  bound.
\<close>

theorem C3_exact_lower_above_rate:
  "rate (ciRatePoisson_compute 5 1000 95) < exactLower (ciRatePoisson_compute 5 1000 95)
   \<and> exactUpper (ciRatePoisson_compute 5 1000 95) < exactLower (ciRatePoisson_compute 5 1000 95)"
proof -
  have "rate (ciRatePoisson_compute 5 1000 95) = 0.005"
    by (simp add: ciRatePoisson_compute_def Let_def)
  then show ?thesis using poisson_5_1000_lower poisson_5_1000_upper by simp
qed

text \<open>
  C4 at the table a = 0, b = 10, c = 5, d = 5 (confidence 95). The claim takes the ratio
  point estimates from the uncorrected table, which gives RR = (0/10) / (5/10) = 0 and
  OR = (0 * 5) / (10 * 5) = 0, and \<open>ciEpi.compute\<close> reports these values; but
  \<open>computeRR\<close> reports 1/11 and \<open>computeOR\<close> reports 1/21, the ratios of the table
  with 0.5 added to every cell. For the risk difference \<open>computeRD\<close> uses the row
  totals as entered (standard error sqrt (1/40)), as the claim says, while
  \<open>ciEpi.compute\<close> divides by the row totals plus 0.5 (standard error sqrt (1/42)).
\<close>

theorem C4_siblings_disagree:
  "est_value (computeRR \<lparr>cell_a = 0, cell_b = 10, cell_c = 5, cell_d = 5\<rparr> 95) = 1 / 11
   \<and> est_value (computeOR \<lparr>cell_a = 0, cell_b = 10, cell_c = 5, cell_d = 5\<rparr> 95) = 1 / 21
   \<and> rrPoint (ciEpi_compute 0 5 10 5 95) = Finite 0
   \<and> orPoint (ciEpi_compute 0 5 10 5 95) = Finite 0
   \<and> est_value (computeRD \<lparr>cell_a = 0, cell_b = 10, cell_c = 5, cell_d = 5\<rparr> 95) = - (1 / 2)
   \<and> rdPoint (ciEpi_compute 0 5 10 5 95) = - (1 / 2)
   \<and> est_upper (computeRD \<lparr>cell_a = 0, cell_b = 10, cell_c = 5, cell_d = 5\<rparr> 95)
       = - (1 / 2) + getZCritical 95 * sqrt (1 / 40)
   \<and> rdUpper (ciEpi_compute 0 5 10 5 95) = - (1 / 2) + getZCritical 95 * sqrt (1 / 42)"
  by (simp add: computeRR_def computeOR_def computeRD_def applyContinuityCorrection_def
      ciEpi_compute_def js_div_def Let_def)

text \<open>
  C5, as stated, at pStandard = 0.25, pTest = 0.375, margin = 0.125, power = 0.8,
  alpha = 0.025: the denominator is zero, and the solver returns the sample size
  +Infinity in an ordinary result; nothing is rejected.
\<close>

theorem C5_no_rejection_counterexample:
 "(0.375 - 0.25 - 0.125 :: real) ^ 2 \<le> 0
   \<and> perGroup (sampleSizeNonInferiority_compute 0.25 0.375 0.125 0.8 0.025) = PosInfinity
   \<and> totalSize (sampleSizeNonInferiority_compute 0.25 0.375 0.125 0.8 0.025) = PosInfinity"
proof -
  have a: "0 < getZCritical 95" by (rule getZCritical_pos) simp_all
  have b: "0 < getZCritical 60" by (rule getZCritical_pos) simp_all
  have "0 < (getZCritical 95 + getZCritical 60)\<^sup>2" using a b by simp
  then show ?thesis
    by (simp add: sampleSizeNonInferiority_compute_def calculateN_def Let_def js_div_def)
qed

text \<open>
  C5 (amended): the solver has no rejecting path. For inputs in the ranges of its schema
  (alpha in [0.001, 0.2], power in [0.5, 0.99], both proportions in [0.01, 0.99]) with
  pTest - pStandard - margin exactly zero it returns +Infinity as the sample size per
  group and as the total.
\<close>

theorem C5_zero_denominator:
  assumes alpha: "0.001 \<le> alpha" "alpha \<le> 0.2"
    and pwr: "0.5 \<le> pwr" "pwr \<le> 0.99"
    and ps: "0.01 \<le> pStandard" "pStandard \<le> 0.99"
    and pt: "0.01 \<le> pTest" "pTest \<le> 0.99"
    and zero: "pTest - pStandard - margin = 0"
  shows "perGroup (sampleSizeNonInferiority_compute pStandard pTest margin pwr alpha) = PosInfinity
       \<and> totalSize (sampleSizeNonInferiority_compute pStandard pTest margin pwr alpha) = PosInfinity"
proof -
  have a: "1 / 20 < getZCritical ((1 - alpha * 2) * 100)"
    by (rule getZCritical_gt_alpha) (use alpha in simp_all)
  have b: "- (1 / 20) < getZCritical ((pwr * 2 - 1) * 100)"
    by (rule getZCritical_gt_power) (use pwr in simp_all)
  have z: "0 < (getZCritical ((1 - alpha * 2) * 100) + getZCritical ((pwr * 2 - 1) * 100))\<^sup>2"
    using a b by simp
  have "0 < pStandard * (1 - pStandard)" "0 < pTest * (1 - pTest)"
    using ps pt by (simp_all add: mult_pos_pos)
  then have v: "0 < pStandard * (1 - pStandard) + pTest * (1 - pTest)"
    by (rule add_pos_pos)
  have "0 < (getZCritical ((1 - alpha * 2) * 100) + getZCritical ((pwr * 2 - 1) * 100))\<^sup>2
            * (pStandard * (1 - pStandard) + pTest * (1 - pTest))"
    using z v by (rule mult_pos_pos)
  then show ?thesis
    using zero
    by (simp add: sampleSizeNonInferiority_compute_def calculateN_def Let_def js_div_def)
qed

theorem C5_zero_denominator_witness:
  "perGroup (sampleSizeNonInferiority_compute 0.5 0.625 0.125 0.9 0.05) = PosInfinity
   \<and> totalSize (sampleSizeNonInferiority_compute 0.5 0.625 0.125 0.9 0.05) = PosInfinity"
  using C5_zero_denominator [of "0.05" "0.9" "0.5" "0.625" "0.125"] by simp

text \<open>
  C6, as stated: for p1 = 0.3, p2 = 0.5, power = 0.8, alpha = 0.05, ratio = 1 the solver
  does not return n1 = 93.
\<close>

theorem C6_example_not_93:
  "n1 (sampleSizeTwoProps_compute 0.3 0.5 0.8 0.05 1) \<noteq> 93"
  by (subst twoProps_example) simp

text \<open>
  C6 (amended): for these inputs the solver returns n1 = n2 = 94, the ceiling of the
  closed-form value, which lies strictly between 93 and 94 with the quantiles that
  \<open>getZCritical\<close> computes.
\<close>

theorem C6_example_is_94:
  "n1 (sampleSizeTwoProps_compute 0.3 0.5 0.8 0.05 1) = 94
   \<and> n2 (sampleSizeTwoProps_compute 0.3 0.5 0.8 0.05 1) = 94"
  by (subst twoProps_example)+ simp

text \<open>
  C7: for every real t and every integer df >= 1 the triple returned by \<open>getTPValue\<close>
  satisfies lower + upper = 1 and twoSided = 2 * min lower upper, and twoSided lies in
  [0, 1]. (Exact arithmetic: the equalities hold exactly.)
\<close>

theorem C7_tpvalue_triple:
  assumes "1 \<le> df"
  shows "lower (getTPValue t df) + upper (getTPValue t df) = 1
       \<and> twoSided (getTPValue t df) = 2 * min (lower (getTPValue t df)) (upper (getTPValue t df))
       \<and> 0 \<le> twoSided (getTPValue t df) \<and> twoSided (getTPValue t df) \<le> 1"
proof (cases "df > 100")
  case True
  define pZ where "pZ = getNormalCDF \<bar>t\<bar>"
  have r: "1 / 2 \<le> pZ" "pZ \<le> 1" unfolding pZ_def by (rule getNormalCDF_range; simp)+
  have "getTPValue t df
          = \<lparr>twoSided = 2 * (1 - pZ), lower = (if t < 0 then pZ else 1 - pZ),
             upper = 1 - (if t < 0 then pZ else 1 - pZ)\<rparr>"
    using True by (simp add: getTPValue_def Let_def pZ_def)
  then show ?thesis using r by (simp add: min_def)
next
  case False
  define x where "x = arctan (\<bar>t\<bar> / sqrt (real_of_int df))"
  define p where "p = trigP x df"
  have x0: "0 \<le> x" using assms by (simp add: x_def)
  have x1: "x \<le> pi / 2" unfolding x_def using arctan_ubound [of "\<bar>t\<bar> / sqrt (real_of_int df)"] by simp
  have p: "0 \<le> p" "p \<le> 1" unfolding p_def by (rule trigP_range [OF assms x0 x1])+
  have z: "t = 0 \<Longrightarrow> p = 1" unfolding p_def x_def using trigP_zero [OF assms] by simp
  have "getTPValue t df
          = \<lparr>twoSided = max 0 (min 1 p),
             lower = (if t < 0 then 1 - p / 2 else p / 2),
             upper = (if t > 0 then 1 - p / 2 else p / 2)\<rparr>"
    using False by (simp add: getTPValue_trig Let_def p_def x_def)
  then show ?thesis using p z by (cases "t = 0") (auto simp add: min_def max_def)
qed

theorem C7_tpvalue_triple_witness:
  "lower (getTPValue 2 10) + upper (getTPValue 2 10) = 1
   \<and> twoSided (getTPValue 2 10) = 2 * min (lower (getTPValue 2 10)) (upper (getTPValue 2 10))
   \<and> 0 \<le> twoSided (getTPValue 2 10) \<and> twoSided (getTPValue 2 10) \<le> 1"
proof -
  have "(1::int) \<le> 10" by simp
  then show ?thesis by (rule C7_tpvalue_triple)
qed

text \<open>
  C8 at x = 1, n = 100, confidence 95: the Wilson interval satisfies
  0 <= lower <= x/n <= upper <= 1, but the Clopper-Pearson upper bound is below the
  observed proportion x/n = 0.01.
\<close>

theorem C8_clopper_pearson_upper_below_estimate:
  "0 \<le> wilsonLow (ciProportion_compute 1 100 95)
   \<and> wilsonLow (ciProportion_compute 1 100 95) \<le> pHat (ciProportion_compute 1 100 95)
   \<and> pHat (ciProportion_compute 1 100 95) \<le> wilsonHigh (ciProportion_compute 1 100 95)
   \<and> wilsonHigh (ciProportion_compute 1 100 95) \<le> 1
   \<and> cpHigh (ciProportion_compute 1 100 95) < pHat (ciProportion_compute 1 100 95)"
proof -
  define F where "F = getFCritical (975 / 1000) 4 198"
  have F: "0 < F" "F < 1 / 2" unfolding F_def by (rule fcrit_4_198)+
  have "(2 * F) / (99 + 2 * F) < 1 / 100" using F by (simp add: field_simps)
  then have "cpHigh (ciProportion_compute 1 100 95) < pHat (ciProportion_compute 1 100 95)"
    by (simp add: ciProportion_compute_def Let_def F_def)
  then show ?thesis using wilson_contains [of 1 100 95] by simp
qed

text \<open>
  C9, as stated, at the table a = b = c = d = 1 with the Yates correction: the formula
  of the claim gives 4 * (0 - 2)^2 / 16 = 1, the code returns the statistic 0.
\<close>

theorem C9_yates_counterexample:
  "chi2 (chiSquare_compute 1 1 1 1 True)
     \<noteq> (1 + 1 + 1 + 1) * (\<bar>1 * 1 - 1 * 1\<bar> - (1 + 1 + 1 + 1) / 2) ^ 2
         / ((1 + 1) * (1 + 1) * (1 + 1) * (1 + 1))"
  by (simp add: chiSquare_compute_def Let_def)

text \<open>
  C9 (amended): for every table whose row and column totals are all positive the
  statistic is n * m^2 / (R1 * R2 * C1 * C2), where m = |ad - bc| without the Yates
  correction and m = max 0 (|ad - bc| - n/2) with it: the corrected numerator is
  truncated at zero.
\<close>

theorem C9_chi2_formula:
  assumes "0 < a + b" and "0 < c + d" and "0 < a + c" and "0 < b + d"
  shows "chiSquare_compute a b c d yates \<noteq> ZeroTotals
         \<and> chi2 (chiSquare_compute a b c d yates)
           = (a + b + c + d)
               * (if yates then max 0 (\<bar>a * d - b * c\<bar> - (a + b + c + d) / 2)
                  else \<bar>a * d - b * c\<bar>) ^ 2
               / ((a + b) * (c + d) * (a + c) * (b + d))"
  using assms by (simp add: chiSquare_compute_def Let_def)

theorem C9_chi2_formula_witness:
  "(0::real) < 10 + 20 \<and> (0::real) < 30 + 40 \<and> (0::real) < 10 + 30 \<and> (0::real) < 20 + 40
   \<and> chiSquare_compute 10 20 30 40 True \<noteq> ZeroTotals
   \<and> chi2 (chiSquare_compute 10 20 30 40 True) = 25 / 56"
  using C9_chi2_formula [of 10 20 30 40 True] by simp

text \<open>
  C10: for k = 0 events, every T > 0 and confidence 95, the Byar lower bound is strictly
  negative (it is not truncated at zero), while the exact lower bound is 0.
\<close>

theorem C10_byar_lower_negative:
  assumes "0 < T"
  shows "byarLower (ciRatePoisson_compute 0 T 95) < 0
       \<and> exactLower (ciRatePoisson_compute 0 T 95) = 0"
proof -
  define z where "z = getZCritical 95"
  have z: "196033 / 100000 \<le> z" unfolding z_def by (rule z_95)
  have r: "14142 / 10000 \<le> sqrt 2" by (rule real_le_rsqrt) (simp add: power_divide)
  have "(196033 / 100000 / 3) * (14142 / 10000) \<le> (z / 3) * sqrt 2"
    using z r by (intro mult_mono) simp_all
  then have neg: "1 - 1 / (9 * (1 / 2)) - (z / 3) * sqrt 2 < 0" by simp
  have "(1 - 1 / (9 * (1 / 2)) - (z / 3) * sqrt 2) ^ 3 < 0"
    using neg by (simp only: power_less_zero_eq) simp
  then have "(1 / 2) * (1 - 1 / (9 * (1 / 2)) - (z / 3) * sqrt 2) ^ 3 / T < 0"
    using assms by (simp add: divide_neg_pos)
  then show ?thesis
    by (simp add: ciRatePoisson_compute_def Let_def z_def)
qed

theorem C10_byar_lower_negative_witness:
  "byarLower (ciRatePoisson_compute 0 1000 95) < 0
   \<and> exactLower (ciRatePoisson_compute 0 1000 95) = 0"
  using C10_byar_lower_negative [of 1000] by simp

end
